theory Spec2Isabelle
  imports Main "HOL-Library.Sublist"
begin

section \<open>Strings\<close>

text \<open>
  JavaScript strings are modelled as \<^typ>\<open>string\<close> (lists of 8-bit characters); every
  pattern the program searches for is ASCII. \<open>startsWith\<close> is \<^const>\<open>prefix\<close> with the
  arguments in the source's order, \<open>includes_str\<close> is the contiguous-substring test of
  \<open>String.prototype.includes\<close>, \<open>toLowerCase\<close> maps the letters A to Z to a to z and
  leaves every other character alone, \<open>show_nat\<close> is the decimal rendering of a number
  inside a template literal and \<open>join\<close> is \<open>Array.prototype.join\<close>.
\<close>

definition startsWith :: "string \<Rightarrow> string \<Rightarrow> bool" where
  "startsWith s p = prefix p s"

fun includes_str :: "string \<Rightarrow> string \<Rightarrow> bool" where
  "includes_str [] p = (p = [])"
| "includes_str (c # cs) p = (prefix p (c # cs) \<or> includes_str cs p)"

definition lower_char :: "char \<Rightarrow> char" where
  "lower_char c =
     (case map_of (zip ''ABCDEFGHIJKLMNOPQRSTUVWXYZ'' ''abcdefghijklmnopqrstuvwxyz'') c of
        Some l \<Rightarrow> l
      | None \<Rightarrow> c)"

definition toLowerCase :: "string \<Rightarrow> string" where
  "toLowerCase s = map lower_char s"

definition digit_char :: "nat \<Rightarrow> char" where
  "digit_char d = ''0123456789'' ! d"

fun show_nat :: "nat \<Rightarrow> string" where
  "show_nat n = (if n < 10 then [digit_char n] else show_nat (n div 10) @ [digit_char (n mod 10)])"

declare show_nat.simps [simp del]

text \<open>An optional value with its default, as a destructuring default or an object spread
  gives it.\<close>

definition or_default :: "'a option \<Rightarrow> 'a \<Rightarrow> 'a" where
  "or_default x d = (case x of Some v \<Rightarrow> v | None \<Rightarrow> d)"

text \<open>The double-quote character, as a string.\<close>

definition dquote :: string where
  "dquote = [CHR 0x22]"

fun join :: "string list \<Rightarrow> string \<Rightarrow> string" where
  "join [] sep = []"
| "join [x] sep = x"
| "join (x # y # ys) sep = x @ sep @ join (y # ys) sep"

section \<open>Shared types and constants (types.ts)\<close>

datatype SupportedImageModel = NanoBanana | NanoBananaPro

fun model_name :: "SupportedImageModel \<Rightarrow> string" where
  "model_name NanoBanana = ''nano-banana''"
| "model_name NanoBananaPro = ''nano-banana-pro''"

datatype FalModelId = NANO_BANANA | NANO_BANANA_PRO | NANO_BANANA_EDIT | NANO_BANANA_PRO_EDIT

fun FAL_MODEL_IDS :: "FalModelId \<Rightarrow> string" where
  "FAL_MODEL_IDS NANO_BANANA = ''fal-ai/nano-banana''"
| "FAL_MODEL_IDS NANO_BANANA_PRO = ''fal-ai/nano-banana-pro''"
| "FAL_MODEL_IDS NANO_BANANA_EDIT = ''fal-ai/nano-banana/edit''"
| "FAL_MODEL_IDS NANO_BANANA_PRO_EDIT = ''fal-ai/nano-banana-pro/edit''"

definition ASPECT_RATIOS :: "string list" where
  "ASPECT_RATIOS =
     [''1:1'', ''2:3'', ''3:2'', ''3:4'', ''4:3'', ''4:5'', ''5:4'', ''9:16'', ''16:9'', ''21:9'']"

definition ASPECT_RATIOS_WITH_AUTO :: "string list" where
  "ASPECT_RATIOS_WITH_AUTO = ''auto'' # ASPECT_RATIOS"

datatype OutputFormat = Png | Jpeg | Webp

datatype Resolution = R1K | R2K | R4K

fun MAX_REFERENCE_IMAGES :: "SupportedImageModel \<Rightarrow> nat" where
  "MAX_REFERENCE_IMAGES NanoBanana = 3"
| "MAX_REFERENCE_IMAGES NanoBananaPro = 14"

text \<open>
  The options of \<open>generate\<close>. An optional field is an \<open>option\<close>; the defaults are applied
  by \<open>generate\<close> itself, as the destructuring in the source does. \<open>aspectRatio\<close> is typed
  as one of the legal ratios, but the tool boundary passes the caller's string through
  unchecked, so it is any string here.
\<close>

record ImageGenerateOptions =
  prompt :: string
  outputPath :: string
  model :: "SupportedImageModel option"
  referenceImages :: "string list option"
  aspectRatio :: "string option"
  outputFormat :: "OutputFormat option"
  resolution :: "Resolution option"
  numImages :: "int option"
  enableWebSearch :: "bool option"

record GenerateResult =
  imagePath :: string
  result_model :: SupportedImageModel
  usage_durationMs :: nat

subsection \<open>categorizeError\<close>

datatype ErrorCategory =
  AUTH_ERROR | RATE_LIMIT | CONTENT_BLOCKED | SAFETY_BLOCK | TIMEOUT | API_ERROR | VALIDATION_ERROR

fun category_name :: "ErrorCategory \<Rightarrow> string" where
  "category_name AUTH_ERROR = ''AUTH_ERROR''"
| "category_name RATE_LIMIT = ''RATE_LIMIT''"
| "category_name CONTENT_BLOCKED = ''CONTENT_BLOCKED''"
| "category_name SAFETY_BLOCK = ''SAFETY_BLOCK''"
| "category_name TIMEOUT = ''TIMEOUT''"
| "category_name API_ERROR = ''API_ERROR''"
| "category_name VALIDATION_ERROR = ''VALIDATION_ERROR''"

text \<open>
  A thrown value, as \<open>categorizeError\<close> reads it: its message (\<open>error.message\<close>, or the
  value turned into a string) and its numeric \<open>status\<close> and \<open>statusCode\<close> properties
  where it has them.
\<close>

record thrown =
  message :: string
  status :: "int option"
  statusCode :: "int option"

record MCPError =
  category :: ErrorCategory
  mcp_message :: string
  mcp_statusCode :: "int option"

text \<open>\<open>new MCPError(category, message, provider, statusCode)\<close>: the message is prefixed
  with the category.\<close>

definition new_MCPError :: "ErrorCategory \<Rightarrow> string \<Rightarrow> int option \<Rightarrow> MCPError" where
  "new_MCPError c m s =
     \<lparr>category = c, mcp_message = category_name c @ '': '' @ m, mcp_statusCode = s\<rparr>"

text \<open>\<open>error.status || error.statusCode\<close>: a missing or zero \<open>status\<close> is falsy.\<close>

definition status_of :: "thrown \<Rightarrow> int option" where
  "status_of e = (case status e of Some s \<Rightarrow> (if s \<noteq> 0 then Some s else statusCode e)
                   | None \<Rightarrow> statusCode e)"

definition categorizeError :: "thrown \<Rightarrow> MCPError" where
  "categorizeError e =
     (let msg = message e; st = status_of e in
      if st = Some 401 \<or> includes_str msg ''API key'' \<or> includes_str msg ''unauthorized''
      then new_MCPError AUTH_ERROR ''Invalid or missing fal.ai API key'' st
      else if st = Some 429 \<or> includes_str msg ''quota'' \<or> includes_str msg ''rate''
      then new_MCPError RATE_LIMIT ''fal.ai API rate limit or quota exceeded'' st
      else if includes_str msg ''safety'' \<or> includes_str msg ''blocked''
      then new_MCPError SAFETY_BLOCK ''Content blocked by safety filter'' st
      else if st = Some 422 \<or> includes_str msg ''422'' \<or> includes_str msg ''invalid''
      then new_MCPError VALIDATION_ERROR msg st
      else if includes_str msg ''TIMEOUT'' \<or> includes_str msg ''timed out''
      then new_MCPError TIMEOUT msg None
      else new_MCPError API_ERROR msg st)"

section \<open>The outside world\<close>

text \<open>
  The program talks to the fal.ai client, to \<open>fetch\<close>, to the file system, to the clock
  and to the usage log. The mutable part of that is the \<open>world\<close>: the clock in
  milliseconds, the files and directories on disk, and the trace of every call the
  program has made to the outside, in order. What the outside answers is the \<open>env\<close>:
  each answer may depend on the whole world at the moment of the call. The log lines
  (\<open>logger.info\<close>, \<open>debugLog\<close>, \<open>warn\<close>, \<open>error\<close>) are left out; a call of \<open>logger.logUsage\<close>
  is the event \<open>LogUsage\<close> (the logger appends the record to \<open>usage.jsonl\<close> when a log
  directory is configured, and never throws).
\<close>

record blob =
  blob_data :: string
  blob_type :: string

record fal_input =
  input_prompt :: string
  output_format :: OutputFormat
  num_images :: int
  aspect_ratio :: "string option"
  image_urls :: "string list option"
  input_resolution :: "Resolution option"
  enable_web_search :: "bool option"

record FalImage =
  url :: string

record FalGenerateResponse =
  images :: "FalImage list option"

text \<open>\<open>UsageLogEntry\<close> of logger.ts; its \<open>type\<close> field is the constant \<open>"image"\<close>, and the
  timestamp is the clock's reading.\<close>

record UsageLogEntry =
  timestamp :: nat
  usage_model :: SupportedImageModel
  durationMs :: nat
  success :: bool
  error :: "string option"

datatype event =
    Upload blob
  | Subscribe string fal_input
  | Sleep nat
  | Fetch string
  | Mkdir string
  | WriteFile string string
  | LogUsage UsageLogEntry

record world =
  now :: nat
  files :: "string \<rightharpoonup> string"
  dirs :: "string set"
  trace :: "event list"

text \<open>
  How an asynchronous call settles: it resolves or rejects after so many milliseconds,
  or it never settles.
\<close>

datatype 'a promise = Resolves nat 'a | Rejects nat string | Pending

record http_response =
  http_status :: nat
  statusText :: string
  body :: "string + string"

text \<open>\<open>response.ok\<close> of the fetch API.\<close>

definition ok :: "http_response \<Rightarrow> bool" where
  "ok r = (200 \<le> http_status r \<and> http_status r \<le> 299)"

text \<open>
  \<open>storage_upload\<close> is \<open>fal.storage.upload\<close>, \<open>fal_subscribe\<close> is \<open>fal.subscribe\<close> (the
  \<open>data\<close> of its result), \<open>http_fetch\<close> is \<open>fetch\<close> (the time it takes, and the response
  or the message it rejects with; the body is the bytes of \<open>arrayBuffer()\<close> or the
  message that rejects with), \<open>fs_error\<close> is the error the file system throws when asked
  to create or write a path, \<open>base64\<close> is \<open>Buffer.from(_, "base64")\<close>, and \<open>extname\<close> and
  \<open>dirname\<close> are those of Node's \<open>path\<close>. \<open>fetch\<close> is awaited without a timeout in the
  source; here it always settles.
\<close>

record env =
  storage_upload :: "world \<Rightarrow> blob \<Rightarrow> string promise"
  fal_subscribe :: "world \<Rightarrow> string \<Rightarrow> fal_input \<Rightarrow> FalGenerateResponse promise"
  http_fetch :: "world \<Rightarrow> string \<Rightarrow> nat \<times> (string + http_response)"
  fs_error :: "world \<Rightarrow> string \<Rightarrow> string option"
  base64 :: "string \<Rightarrow> string"
  extname :: "string \<Rightarrow> string"
  dirname :: "string \<Rightarrow> string"

definition tick :: "nat \<Rightarrow> world \<Rightarrow> world" where
  "tick ms w = w\<lparr>now := now w + ms\<rparr>"

definition log_event :: "event \<Rightarrow> world \<Rightarrow> world" where
  "log_event ev w = w\<lparr>trace := trace w @ [ev]\<rparr>"

definition existsSync :: "world \<Rightarrow> string \<Rightarrow> bool" where
  "existsSync w path = (files w path \<noteq> None \<or> path \<in> dirs w)"

definition readFileSync :: "world \<Rightarrow> string \<Rightarrow> string + string" where
  "readFileSync w path =
     (case files w path of
        Some data \<Rightarrow> Inr data
      | None \<Rightarrow> Inl (if path \<in> dirs w then ''EISDIR: illegal operation on a directory, read''
                     else ''ENOENT: no such file or directory''))"

definition mkdirSync :: "env \<Rightarrow> string \<Rightarrow> world \<Rightarrow> (string + unit) \<times> world" where
  "mkdirSync e dir w =
     (case fs_error e w dir of
        Some m \<Rightarrow> (Inl m, w)
      | None \<Rightarrow> (Inr (), log_event (Mkdir dir) (w\<lparr>dirs := insert dir (dirs w)\<rparr>)))"

definition writeFileSync :: "env \<Rightarrow> string \<Rightarrow> string \<Rightarrow> world \<Rightarrow> (string + unit) \<times> world" where
  "writeFileSync e path data w =
     (case fs_error e w path of
        Some m \<Rightarrow> (Inl m, w)
      | None \<Rightarrow> (Inr (), log_event (WriteFile path data) (w\<lparr>files := (files w)(path \<mapsto> data)\<rparr>)))"

section \<open>Retry and timeout utilities (retry.ts)\<close>

text \<open>\<open>RetryOptions\<close> is what a caller passes, every field optional; \<open>retry_opts\<close> is the
  object after \<open>{ ...DEFAULT_RETRY_OPTIONS, ...options }\<close>.\<close>

record RetryOptions =
  maxRetries :: "nat option"
  initialDelayMs :: "nat option"
  maxDelayMs :: "nat option"
  backoffMultiplier :: "nat option"
  retryableErrors :: "string list option"

record retry_opts =
  opts_maxRetries :: nat
  opts_initialDelayMs :: nat
  opts_maxDelayMs :: nat
  opts_backoffMultiplier :: nat
  opts_retryableErrors :: "string list"

definition DEFAULT_RETRY_OPTIONS :: retry_opts where
  "DEFAULT_RETRY_OPTIONS =
     \<lparr>opts_maxRetries = 3, opts_initialDelayMs = 1000, opts_maxDelayMs = 30000,
      opts_backoffMultiplier = 2,
      opts_retryableErrors =
        [''RATE_LIMIT'', ''429'', ''503'', ''502'', ''ECONNRESET'', ''ETIMEDOUT'', ''ENOTFOUND'',
         ''temporarily unavailable'', ''too many requests'']\<rparr>"

definition spread :: "retry_opts \<Rightarrow> RetryOptions \<Rightarrow> retry_opts" where
  "spread d options =
     \<lparr>opts_maxRetries = or_default (maxRetries options) (opts_maxRetries d),
      opts_initialDelayMs = or_default (initialDelayMs options) (opts_initialDelayMs d),
      opts_maxDelayMs = or_default (maxDelayMs options) (opts_maxDelayMs d),
      opts_backoffMultiplier = or_default (backoffMultiplier options) (opts_backoffMultiplier d),
      opts_retryableErrors = or_default (retryableErrors options) (opts_retryableErrors d)\<rparr>"

text \<open>A thrown value is represented by its message, which is all the program reads of it.\<close>

definition isRetryable :: "string \<Rightarrow> string list \<Rightarrow> bool" where
  "isRetryable msg patterns =
     list_ex (\<lambda>pattern. includes_str (toLowerCase msg) (toLowerCase pattern)) patterns"

definition sleep :: "nat \<Rightarrow> world \<Rightarrow> world" where
  "sleep ms w = tick ms (log_event (Sleep ms) w)"

text \<open>
  The loop of \<open>withRetry\<close>, from the attempt counter \<open>attempt\<close> with the current \<open>delay\<close>.
  \<open>fn\<close> is the awaited call: it returns the value or the thrown message, and the world
  after it. The statement after the loop throws \<open>lastError\<close>.
\<close>

function withRetry_loop ::
  "(world \<Rightarrow> (string + 'a) \<times> world) \<Rightarrow> retry_opts \<Rightarrow> nat \<Rightarrow> nat \<Rightarrow> string \<Rightarrow> world
     \<Rightarrow> (string + 'a) \<times> world" where
  "withRetry_loop fn opts attempt delay lastError w =
     (if attempt \<le> opts_maxRetries opts then
        (case fn w of
           (Inr v, w') \<Rightarrow> (Inr v, w')
         | (Inl err, w') \<Rightarrow>
             if attempt = opts_maxRetries opts \<or> \<not> isRetryable err (opts_retryableErrors opts)
             then (Inl err, w')
             else withRetry_loop fn opts (attempt + 1)
                    (min (delay * opts_backoffMultiplier opts) (opts_maxDelayMs opts)) err
                    (sleep delay w'))
      else (Inl lastError, w))"
  by pat_completeness auto
termination
  by (relation "measure (\<lambda>(fn, opts, attempt, delay, lastError, w). Suc (opts_maxRetries opts) - attempt)")
     auto

declare withRetry_loop.simps [simp del]

definition withRetry ::
  "(world \<Rightarrow> (string + 'a) \<times> world) \<Rightarrow> RetryOptions \<Rightarrow> world \<Rightarrow> (string + 'a) \<times> world" where
  "withRetry fn options w =
     (let opts = spread DEFAULT_RETRY_OPTIONS options in
      withRetry_loop fn opts 0 (opts_initialDelayMs opts) ''undefined'' w)"

text \<open>
  \<open>withTimeout\<close> races the call against a timer of \<open>timeoutMs\<close>. \<open>fn\<close> starts the call: it
  returns how the call will settle and the world with the call made. A call that
  settles before the timer wins the race; otherwise the timer rejects at \<open>timeoutMs\<close>.
\<close>

definition timeout_message :: "nat \<Rightarrow> string" where
  "timeout_message timeoutMs = ''TIMEOUT: Operation timed out after '' @ show_nat timeoutMs @ ''ms''"

definition withTimeout ::
  "(world \<Rightarrow> 'a promise \<times> world) \<Rightarrow> nat \<Rightarrow> world \<Rightarrow> (string + 'a) \<times> world" where
  "withTimeout fn timeoutMs w =
     (case fn w of
        (Resolves d v, w') \<Rightarrow>
          if d < timeoutMs then (Inr v, tick d w')
          else (Inl (timeout_message timeoutMs), tick timeoutMs w')
      | (Rejects d m, w') \<Rightarrow>
          if d < timeoutMs then (Inl m, tick d w')
          else (Inl (timeout_message timeoutMs), tick timeoutMs w')
      | (Pending, w') \<Rightarrow> (Inl (timeout_message timeoutMs), tick timeoutMs w'))"

section \<open>The image provider (providers/fal-image.ts)\<close>

text \<open>
  The provider as in the copy of the file that uploads reference images. The other copy
  passes the reference images on as they are; its validation, its upstream call through
  \<open>withRetry\<close> and \<open>withTimeout\<close>, and its numbered paths are the same.
\<close>

definition DEFAULT_TIMEOUT_MS :: nat where
  "DEFAULT_TIMEOUT_MS = 180000"

definition UPLOAD_TIMEOUT_MS :: nat where
  "UPLOAD_TIMEOUT_MS = 30000"

datatype image_input_type = Url | DataUrl | LocalFile

definition getImageInputType :: "string \<Rightarrow> image_input_type" where
  "getImageInputType input =
     (if startsWith input ''data:'' then DataUrl
      else if startsWith input ''http://'' \<or> startsWith input ''https://'' then Url
      else LocalFile)"

definition getMimeType :: "env \<Rightarrow> string \<Rightarrow> string" where
  "getMimeType e filePath =
     (let ext = toLowerCase (extname e filePath) in
      case map_of [(''.png'', ''image/png''), (''.jpg'', ''image/jpeg''), (''.jpeg'', ''image/jpeg''),
                   (''.gif'', ''image/gif''), (''.webp'', ''image/webp''), (''.bmp'', ''image/bmp'')] ext of
        Some t \<Rightarrow> t
      | None \<Rightarrow> ''image/png'')"

text \<open>
  \<open>parseDataUrl\<close> matches \<open>/^data:([^;]+);base64,(.+)$/\<close>: after \<open>data:\<close> a non-empty run
  without a semicolon, then \<open>;base64,\<close>, then a non-empty rest up to the end of the
  string with no line terminator in it.
\<close>

definition line_terminator :: "char \<Rightarrow> bool" where
  "line_terminator c = (c = CHR 0x0A \<or> c = CHR 0x0D)"

definition parseDataUrl :: "env \<Rightarrow> string \<Rightarrow> string + blob" where
  "parseDataUrl e dataUrl =
     (let rest = drop 5 dataUrl;
          mime = takeWhile (\<lambda>c. c \<noteq> CHR '';'') rest;
          after = dropWhile (\<lambda>c. c \<noteq> CHR '';'') rest;
          payload = drop 8 after
      in if startsWith dataUrl ''data:'' \<and> mime \<noteq> [] \<and> startsWith after '';base64,'' \<and>
            payload \<noteq> [] \<and> \<not> list_ex line_terminator payload
         then Inr \<lparr>blob_data = base64 e payload, blob_type = mime\<rparr>
         else Inl ''Invalid data URL format. Expected: data:<mime>;base64,<data>'')"

text \<open>The call handed to \<open>withTimeout\<close> for an upload.\<close>

definition upload_call :: "env \<Rightarrow> blob \<Rightarrow> world \<Rightarrow> string promise \<times> world" where
  "upload_call e b w = (storage_upload e w b, log_event (Upload b) w)"

text \<open>The body of the \<open>try\<close> inside the loop of \<open>processReferenceImages\<close>, for one input.\<close>

definition process_image :: "env \<Rightarrow> string \<Rightarrow> world \<Rightarrow> (string + string) \<times> world" where
  "process_image e img w =
     (case getImageInputType img of
        Url \<Rightarrow> (Inr img, w)
      | DataUrl \<Rightarrow>
          (case parseDataUrl e img of
             Inl m \<Rightarrow> (Inl m, w)
           | Inr b \<Rightarrow> withTimeout (upload_call e b) UPLOAD_TIMEOUT_MS w)
      | LocalFile \<Rightarrow>
          if \<not> existsSync w img then (Inl (''Reference image file not found: '' @ img), w)
          else
            (case readFileSync w img of
               Inl m \<Rightarrow> (Inl m, w)
             | Inr fileBuffer \<Rightarrow>
                 withTimeout
                   (upload_call e \<lparr>blob_data = fileBuffer, blob_type = getMimeType e img\<rparr>)
                   UPLOAD_TIMEOUT_MS w))"

text \<open>The \<open>for\<close> loop of \<open>processReferenceImages\<close>: the inputs still to process, the index
  \<open>i\<close> of the first of them, and the URLs pushed so far.\<close>

fun processReferenceImages_loop ::
  "env \<Rightarrow> string list \<Rightarrow> nat \<Rightarrow> string list \<Rightarrow> world \<Rightarrow> (string + string list) \<times> world" where
  "processReferenceImages_loop e [] i processedUrls w = (Inr processedUrls, w)"
| "processReferenceImages_loop e (img # rest) i processedUrls w =
     (case process_image e img w of
        (Inl errorMessage, w') \<Rightarrow>
          (Inl (''Failed to process reference image '' @ show_nat (i + 1) @ '': '' @ errorMessage), w')
      | (Inr u, w') \<Rightarrow> processReferenceImages_loop e rest (i + 1) (processedUrls @ [u]) w')"

definition processReferenceImages ::
  "env \<Rightarrow> string list \<Rightarrow> world \<Rightarrow> (string + string list) \<times> world" where
  "processReferenceImages e refs w =
     (if length refs = 0 then (Inr [], w)
      else processReferenceImages_loop e refs 0 [] w)"

definition getModelId :: "SupportedImageModel \<Rightarrow> bool \<Rightarrow> string" where
  "getModelId m hasReferenceImages =
     (if hasReferenceImages
      then (if m = NanoBananaPro then FAL_MODEL_IDS NANO_BANANA_PRO_EDIT
            else FAL_MODEL_IDS NANO_BANANA_EDIT)
      else (if m = NanoBananaPro then FAL_MODEL_IDS NANO_BANANA_PRO
            else FAL_MODEL_IDS NANO_BANANA))"

definition downloadAndSave :: "env \<Rightarrow> string \<Rightarrow> string \<Rightarrow> world \<Rightarrow> (string + unit) \<times> world" where
  "downloadAndSave e imageUrl path w =
     (case http_fetch e w imageUrl of
        (d, r) \<Rightarrow>
          let w1 = tick d (log_event (Fetch imageUrl) w) in
          (case r of
             Inl m \<Rightarrow> (Inl m, w1)
           | Inr response \<Rightarrow>
               if \<not> ok response
               then (Inl (''Failed to download image: '' @ show_nat (http_status response) @ '' '' @
                          statusText response), w1)
               else
                 (case body response of
                    Inl m \<Rightarrow> (Inl m, w1)
                  | Inr buffer \<Rightarrow>
                      let outputDir = dirname e path in
                      (case (if outputDir \<noteq> [] \<and> \<not> existsSync w1 outputDir
                             then mkdirSync e outputDir w1 else (Inr (), w1)) of
                         (Inl m, w2) \<Rightarrow> (Inl m, w2)
                       | (Inr _, w2) \<Rightarrow> writeFileSync e path buffer w2))))"

text \<open>
  \<open>s.replace(/(\.[^.]+)$/, ins + "$1")\<close>: the search tries each position from the left;
  the pattern matches at a dot that is followed by at least one character and by no
  further dot up to the end of the string. The replacement puts \<open>ins\<close> before the match.
\<close>

fun replace_extension :: "string \<Rightarrow> string \<Rightarrow> string" where
  "replace_extension [] ins = []"
| "replace_extension (c # cs) ins =
     (if c = CHR ''.'' \<and> cs \<noteq> [] \<and> CHR ''.'' \<notin> set cs then ins @ c # cs
      else c # replace_extension cs ins)"

definition numberedPath :: "string \<Rightarrow> nat \<Rightarrow> string" where
  "numberedPath path i = replace_extension path (''_'' @ show_nat (i + 1))"

text \<open>The loop over the additional images: the images from index \<open>i\<close> on.\<close>

fun save_additional ::
  "env \<Rightarrow> string \<Rightarrow> FalImage list \<Rightarrow> nat \<Rightarrow> world \<Rightarrow> (string + unit) \<times> world" where
  "save_additional e path [] i w = (Inr (), w)"
| "save_additional e path (img # rest) i w =
     (case downloadAndSave e (url img) (numberedPath path i) w of
        (Inl m, w') \<Rightarrow> (Inl m, w')
      | (Inr _, w') \<Rightarrow> save_additional e path rest (i + 1) w')"

text \<open>The part of \<open>generate\<close> from the validation of the response to the last download.\<close>

definition save_images ::
  "env \<Rightarrow> FalGenerateResponse \<Rightarrow> string \<Rightarrow> int \<Rightarrow> world \<Rightarrow> (string + unit) \<times> world" where
  "save_images e response path n w =
     (case images response of
        None \<Rightarrow> (Inl ''No image data found in response'', w)
      | Some [] \<Rightarrow> (Inl ''No image data found in response'', w)
      | Some (img0 # others) \<Rightarrow>
          (case downloadAndSave e (url img0) path w of
             (Inl m, w') \<Rightarrow> (Inl m, w')
           | (Inr _, w') \<Rightarrow>
               if n > 1 \<and> length (img0 # others) > 1 then save_additional e path others 1 w'
               else (Inr (), w')))"

text \<open>The validation at the head of \<open>generate\<close>, before its \<open>try\<close>: the message thrown, if
  any. \<open>if (aspectRatio)\<close> holds for a string that is present and not empty.\<close>

definition validate ::
  "string option \<Rightarrow> SupportedImageModel \<Rightarrow> string list \<Rightarrow> Resolution \<Rightarrow> string option" where
  "validate ar m refs res =
     (let hasReferenceImages = length refs > 0;
          maxImages = MAX_REFERENCE_IMAGES m;
          ratio = or_default ar []
      in if ratio \<noteq> [] \<and> ratio = ''auto'' \<and> \<not> hasReferenceImages
         then Some (''Aspect ratio '' @ dquote @ ''auto'' @ dquote @
                    '' is only valid when using reference_images. '' @
                    ''For text-to-image, use: '' @ join ASPECT_RATIOS '', '')
         else if ratio \<noteq> [] \<and> ratio \<notin> set ASPECT_RATIOS_WITH_AUTO
         then Some (''Invalid aspect ratio '' @ dquote @ ratio @ dquote @ ''. Valid options: '' @
                    join ASPECT_RATIOS_WITH_AUTO '', '')
         else if length refs > maxImages
         then Some (''Maximum '' @ show_nat maxImages @ '' reference images allowed for '' @
                    model_name m)
         else if m \<noteq> NanoBananaPro \<and> res \<noteq> R1K
         then Some ''Only nano-banana-pro supports 2K and 4K resolution''
         else None)"

definition build_input ::
  "string \<Rightarrow> OutputFormat \<Rightarrow> int \<Rightarrow> string option \<Rightarrow> string list \<Rightarrow> bool \<Rightarrow> Resolution \<Rightarrow> bool
     \<Rightarrow> fal_input" where
  "build_input p fmt n ar processedImageUrls isPro res web =
     \<lparr>input_prompt = p, output_format = fmt, num_images = n,
      aspect_ratio = (case ar of Some a \<Rightarrow> (if a \<noteq> [] then Some a else None) | None \<Rightarrow> None),
      image_urls = (if length processedImageUrls > 0 then Some processedImageUrls else None),
      input_resolution = (if isPro then Some res else None),
      enable_web_search = (if isPro \<and> web then Some True else None)\<rparr>"

text \<open>The upstream call: \<open>withRetry\<close> around \<open>withTimeout\<close> around \<open>fal.subscribe\<close>, with the
  options \<open>generate\<close> passes.\<close>

definition subscribe_call ::
  "env \<Rightarrow> string \<Rightarrow> fal_input \<Rightarrow> world \<Rightarrow> FalGenerateResponse promise \<times> world" where
  "subscribe_call e modelId inp w = (fal_subscribe e w modelId inp, log_event (Subscribe modelId inp) w)"

definition generate_retry_options :: RetryOptions where
  "generate_retry_options =
     \<lparr>maxRetries = Some 2, initialDelayMs = None, maxDelayMs = None, backoffMultiplier = None,
      retryableErrors =
        Some [''RATE_LIMIT'', ''429'', ''503'', ''502'', ''ECONNRESET'', ''ETIMEDOUT'']\<rparr>"

definition call_api ::
  "env \<Rightarrow> string \<Rightarrow> fal_input \<Rightarrow> world \<Rightarrow> (string + FalGenerateResponse) \<times> world" where
  "call_api e modelId inp w =
     withRetry (withTimeout (subscribe_call e modelId inp) DEFAULT_TIMEOUT_MS)
       generate_retry_options w"

text \<open>The \<open>try\<close> block of \<open>generate\<close> up to the last download.\<close>

definition try_block ::
  "env \<Rightarrow> string \<Rightarrow> string \<Rightarrow> SupportedImageModel \<Rightarrow> string list \<Rightarrow> string option
     \<Rightarrow> OutputFormat \<Rightarrow> Resolution \<Rightarrow> int \<Rightarrow> bool \<Rightarrow> world \<Rightarrow> (string + unit) \<times> world" where
  "try_block e p path m refs ar fmt res n web w =
     (let hasReferenceImages = length refs > 0;
          modelId = getModelId m hasReferenceImages
      in case (if hasReferenceImages then processReferenceImages e refs w else (Inr [], w)) of
           (Inl msg, w1) \<Rightarrow> (Inl msg, w1)
         | (Inr processedImageUrls, w1) \<Rightarrow>
             (case call_api e modelId
                     (build_input p fmt n ar processedImageUrls (m = NanoBananaPro) res web) w1 of
                (Inl msg, w2) \<Rightarrow> (Inl msg, w2)
              | (Inr response, w2) \<Rightarrow> save_images e response path n w2))"

text \<open>The classification in the \<open>catch\<close> block of \<open>generate\<close>.\<close>

definition errorType :: "string \<Rightarrow> string" where
  "errorType errorMessage =
     (if includes_str errorMessage ''API key'' \<or> includes_str errorMessage ''unauthorized'' \<or>
         includes_str errorMessage ''authentication''
      then ''AUTH_ERROR''
      else if includes_str errorMessage ''quota'' \<or> includes_str errorMessage ''rate'' \<or>
              includes_str errorMessage ''429'' \<or> includes_str errorMessage ''too many requests''
      then ''RATE_LIMIT''
      else if includes_str errorMessage ''safety'' \<or> includes_str errorMessage ''blocked'' \<or>
              includes_str errorMessage ''content policy''
      then ''CONTENT_BLOCKED''
      else if includes_str errorMessage ''TIMEOUT'' then ''TIMEOUT''
      else if includes_str errorMessage ''Unprocessable Entity'' \<or> includes_str errorMessage ''422''
      then ''INVALID_REQUEST''
      else ''GENERATION_ERROR'')"

definition generate :: "env \<Rightarrow> ImageGenerateOptions \<Rightarrow> world \<Rightarrow> (string + GenerateResult) \<times> world" where
  "generate e options w =
     (let m = or_default (model options) NanoBanana;
          refs = or_default (referenceImages options) [];
          fmt = or_default (outputFormat options) Png;
          res = or_default (resolution options) R1K;
          n = or_default (numImages options) 1;
          web = or_default (enableWebSearch options) False;
          startTime = now w
      in case validate (aspectRatio options) m refs res of
           Some msg \<Rightarrow> (Inl msg, w)
         | None \<Rightarrow>
             (case try_block e (prompt options) (outputPath options) m refs (aspectRatio options)
                     fmt res n web w of
                (Inr _, w') \<Rightarrow>
                  (Inr \<lparr>imagePath = outputPath options, result_model = m,
                        usage_durationMs = now w' - startTime\<rparr>,
                   log_event (LogUsage \<lparr>timestamp = now w', usage_model = m,
                                        durationMs = now w' - startTime, success = True,
                                        error = None\<rparr>) w')
              | (Inl errorMessage, w') \<Rightarrow>
                  (Inl (errorType errorMessage @ '': '' @ errorMessage),
                   log_event (LogUsage \<lparr>timestamp = now w', usage_model = m,
                                        durationMs = now w' - startTime, success = False,
                                        error = Some (errorType errorMessage @ '': '' @ errorMessage)\<rparr>)
                     w')))"

section \<open>Rule tables\<close>

text \<open>
  An ordered rule table for classifying a failure: each rule lists status codes and
  substrings and gives a category; the first rule with a listed status code or a
  substring contained in the message wins, and a failure no rule matches gets the
  default category.
\<close>

fun rule_matches :: "int list \<times> string list \<times> 'c \<Rightarrow> int option \<Rightarrow> string \<Rightarrow> bool" where
  "rule_matches (codes, patterns, c) st msg =
     ((case st of Some s \<Rightarrow> s \<in> set codes | None \<Rightarrow> False) \<or> list_ex (includes_str msg) patterns)"

fun first_match :: "(int list \<times> string list \<times> 'c) list \<Rightarrow> 'c \<Rightarrow> int option \<Rightarrow> string \<Rightarrow> 'c" where
  "first_match [] d st msg = d"
| "first_match (r # rules) d st msg =
     (if rule_matches r st msg then snd (snd r) else first_match rules d st msg)"

text \<open>The table the specification states for the error classifier.\<close>

definition stated_rules :: "(int list \<times> string list \<times> string) list" where
  "stated_rules =
     [([], [''API key'', ''unauthorized'', ''authentication''], ''AUTH_ERROR''),
      ([], [''quota'', ''rate'', ''429'', ''too many requests''], ''RATE_LIMIT''),
      ([], [''safety'', ''blocked'', ''content policy''], ''CONTENT_BLOCKED''),
      ([422], [''invalid'', ''422''], ''VALIDATION_ERROR''),
      ([], [''TIMEOUT'', ''timed out''], ''TIMEOUT'')]"

text \<open>The table of the \<open>catch\<close> block of \<open>generate\<close>, default \<open>GENERATION_ERROR\<close>.\<close>

definition generate_rules :: "(int list \<times> string list \<times> string) list" where
  "generate_rules =
     [([], [''API key'', ''unauthorized'', ''authentication''], ''AUTH_ERROR''),
      ([], [''quota'', ''rate'', ''429'', ''too many requests''], ''RATE_LIMIT''),
      ([], [''safety'', ''blocked'', ''content policy''], ''CONTENT_BLOCKED''),
      ([], [''TIMEOUT''], ''TIMEOUT''),
      ([], [''Unprocessable Entity'', ''422''], ''INVALID_REQUEST'')]"

text \<open>The table of \<open>categorizeError\<close>, default \<open>API_ERROR\<close>.\<close>

definition categorize_rules :: "(int list \<times> string list \<times> ErrorCategory) list" where
  "categorize_rules =
     [([401], [''API key'', ''unauthorized''], AUTH_ERROR),
      ([429], [''quota'', ''rate''], RATE_LIMIT),
      ([], [''safety'', ''blocked''], SAFETY_BLOCK),
      ([422], [''422'', ''invalid''], VALIDATION_ERROR),
      ([], [''TIMEOUT'', ''timed out''], TIMEOUT)]"

section \<open>Predicates and examples used in the statements\<close>

text \<open>The aspect-ratio checks pass: none was given (or an empty one), or it is one of the
  extended set, and it is \<open>auto\<close> only with reference images.\<close>

definition aspect_passes :: "string option \<Rightarrow> string list \<Rightarrow> bool" where
  "aspect_passes ar refs =
     (or_default ar [] = [] \<or>
      (or_default ar [] \<in> set ASPECT_RATIOS_WITH_AUTO \<and> (or_default ar [] = ''auto'' \<longrightarrow> refs \<noteq> [])))"

text \<open>A world with an empty disk and an empty trace, at time 0.\<close>

definition world0 :: world where
  "world0 = \<lparr>now = 0, files = Map.empty, dirs = {}, trace = []\<rparr>"

text \<open>An outside world in which every upload and every upstream call hangs, every
  download fails and the disk accepts every write.\<close>

definition env0 :: env where
  "env0 = \<lparr>storage_upload = (\<lambda>w b. Pending), fal_subscribe = (\<lambda>w i p. Pending),
     http_fetch = (\<lambda>w u. (0, Inl ''fetch failed'')), fs_error = (\<lambda>w p. None),
     base64 = (\<lambda>s. s), extname = (\<lambda>p. []), dirname = (\<lambda>p. ''.'')\<rparr>"

text \<open>A request with four reference images for the default (fast) model.\<close>

definition four_refs_request :: ImageGenerateOptions where
  "four_refs_request =
     \<lparr>prompt = ''add a hat'', outputPath = ''/tmp/x.png'', model = None,
      referenceImages = Some [''https://x/1.jpg'', ''https://x/2.jpg'', ''https://x/3.jpg'', ''https://x/4.jpg''],
      aspectRatio = Some ''auto'', outputFormat = None, resolution = None, numImages = None,
      enableWebSearch = None\<rparr>"

text \<open>The delays of the \<open>Sleep\<close> events of a trace, in order, and their sum.\<close>

fun sleeps :: "event list \<Rightarrow> nat list" where
  "sleeps [] = []"
| "sleeps (Sleep ms # evs) = ms # sleeps evs"
| "sleeps (ev # evs) = sleeps evs"



text \<open>The retry options in force for the upstream call of \<open>generate\<close>.\<close>

definition generate_opts :: retry_opts where
  "generate_opts = spread DEFAULT_RETRY_OPTIONS generate_retry_options"

text \<open>A failure message is retryable under the list of signals that \<open>generate\<close> passes.\<close>

definition generate_retryable :: "string \<Rightarrow> bool" where
  "generate_retryable m = isRetryable m (opts_retryableErrors generate_opts)"

text \<open>The call settles, one way or the other, before \<open>t\<close> milliseconds have passed.\<close>

definition settles_before :: "nat \<Rightarrow> 'a promise \<Rightarrow> bool" where
  "settles_before t p = (case p of Resolves d v \<Rightarrow> d < t | Rejects d m \<Rightarrow> d < t | Pending \<Rightarrow> False)"

text \<open>The payload of a plain text-to-image request, and a response with one image.\<close>

definition example_input :: fal_input where
  "example_input = build_input ''a red cube'' Png 1 None [] False R1K False"



text \<open>An upstream that rejects every call with "too many requests" after 5 ms.\<close>

definition env_busy :: env where
  "env_busy = env0\<lparr>fal_subscribe := (\<lambda>w modelId inp. Rejects 5 ''too many requests'')\<rparr>"

text \<open>A call that fails with a 429 until the clock reads 3000 ms and then succeeds.\<close>

definition flaky :: "world \<Rightarrow> (string + nat) \<times> world" where
  "flaky w = (if now w < 3000 then Inl ''HTTP 429'' else Inr (now w), w)"

text \<open>The files written, as the \<open>WriteFile\<close> events of a trace give them: path and bytes,
  in order.\<close>

fun writes :: "event list \<Rightarrow> (string \<times> string) list" where
  "writes [] = []"
| "writes (WriteFile path data # evs) = (path, data) # writes evs"
| "writes (ev # evs) = writes evs"

text \<open>Every download succeeds: \<open>fetch\<close> of a URL \<open>u\<close> answers with a success status and
  the bytes \<open>content u\<close>, and the file system accepts every directory and file.\<close>

definition downloads_succeed :: "env \<Rightarrow> (string \<Rightarrow> string) \<Rightarrow> bool" where
  "downloads_succeed e content =
     ((\<forall>w u. \<exists>d r. http_fetch e w u = (d, Inr r) \<and> ok r \<and> body r = Inr (content u)) \<and>
      (\<forall>w p. fs_error e w p = None))"

text \<open>The pattern \<open>/(\.[^.]+)$/\<close> matches nowhere in the path: the path has no dot at all,
  or it ends with a dot. A dot in a directory name counts like any other dot, since
  \<open>[^.]\<close> accepts a slash.\<close>

definition pattern_misses :: "string \<Rightarrow> bool" where
  "pattern_misses path = (CHR ''.'' \<notin> set path \<or> (path \<noteq> [] \<and> last path = CHR ''.''))"

text \<open>The file name of a path: what follows its last slash.\<close>

definition file_name :: "string \<Rightarrow> string" where
  "file_name path = rev (takeWhile (\<lambda>c. c \<noteq> CHR ''/'') (rev path))"

text \<open>An outside world whose downloads succeed, with the bytes \<open>page u\<close> behind the URL \<open>u\<close>,
  and a response with three images.\<close>

definition page :: "string \<Rightarrow> string" where
  "page u = ''bytes of '' @ u"

definition env_ok :: env where
  "env_ok = env0\<lparr>http_fetch :=
      (\<lambda>w u. (10, Inr \<lparr>http_status = 200, statusText = ''OK'', body = Inr (page u)\<rparr>))\<rparr>"

definition three_images :: FalGenerateResponse where
  "three_images =
     \<lparr>images = Some [\<lparr>url = ''https://cdn/a''\<rparr>, \<lparr>url = ''https://cdn/b''\<rparr>, \<lparr>url = ''https://cdn/c''\<rparr>]\<rparr>"

text \<open>The usage records handed to \<open>logger.logUsage\<close>, as the \<open>LogUsage\<close> events of a trace
  give them, in order.\<close>

fun usage_records :: "event list \<Rightarrow> UsageLogEntry list" where
  "usage_records [] = []"
| "usage_records (LogUsage entry # evs) = entry # usage_records evs"
| "usage_records (ev # evs) = usage_records evs"

text \<open>A text-to-image request that asks for the aspect ratio \<open>auto\<close>, and one that asks for
  nothing special.\<close>

definition auto_request :: ImageGenerateOptions where
  "auto_request =
     \<lparr>prompt = ''a red cube'', outputPath = ''/tmp/cube.png'', model = None,
      referenceImages = None, aspectRatio = Some ''auto'', outputFormat = None,
      resolution = None, numImages = None, enableWebSearch = None\<rparr>"

definition plain_request :: ImageGenerateOptions where
  "plain_request =
     \<lparr>prompt = ''a red cube'', outputPath = ''/tmp/cube.png'', model = None,
      referenceImages = None, aspectRatio = None, outputFormat = None,
      resolution = None, numImages = None, enableWebSearch = None\<rparr>"

text \<open>An outside world whose uploads succeed after 20 ms.\<close>

definition env_up :: env where
  "env_up = env0\<lparr>storage_upload := (\<lambda>w b. Resolves 20 ''https://fal.media/up'')\<rparr>"

section \<open>Properties of the input classifier\<close>

lemma includes_str_sublist: "includes_str s p = sublist p s"
  by (induction s) (auto simp: sublist_Cons_right)

text \<open>
  C9. Classification of a reference-image input is a total function of the string's
  prefix: exactly the strings that start with \<open>data:\<close> are embedded data, whatever
  follows; exactly the strings that start with \<open>http://\<close> or \<open>https://\<close> are remote
  URLs; exactly the remaining strings are local files. The three results are different
  values, so each input falls in exactly one class.
\<close>

theorem getImageInputType_by_prefix:
  "(getImageInputType s = DataUrl \<longleftrightarrow> (\<exists>r. s = ''data:'' @ r)) \<and>
   (getImageInputType s = Url \<longleftrightarrow> (\<exists>r. s = ''http://'' @ r \<or> s = ''https://'' @ r)) \<and>
   (getImageInputType s = LocalFile \<longleftrightarrow>
      \<not> (\<exists>r. s = ''data:'' @ r \<or> s = ''http://'' @ r \<or> s = ''https://'' @ r))"
  by (auto simp: getImageInputType_def startsWith_def prefix_def)

theorem getImageInputType_by_prefix_witness:
  "getImageInputType ''data:image/png;base64,AAAA'' = DataUrl \<and>
   getImageInputType ''https://x/y.jpg'' = Url \<and>
   getImageInputType ''/tmp/photo.png'' = LocalFile"
  using getImageInputType_by_prefix [of "''data:image/png;base64,AAAA''"]
        getImageInputType_by_prefix [of "''https://x/y.jpg''"]
        getImageInputType_by_prefix [of "''/tmp/photo.png''"]
  by simp

section \<open>Properties of the error classifiers\<close>

text \<open>
  C4, as the code has it. Both classifiers are total functions that implement an ordered
  rule table, first match wins, but neither table is the stated one. The \<open>catch\<close> block
  of \<open>generate\<close> maps "API key", "unauthorized", "authentication" to AUTH_ERROR; "quota",
  "rate", "429", "too many requests" to RATE_LIMIT; "safety", "blocked", "content policy"
  to CONTENT_BLOCKED; "TIMEOUT" to TIMEOUT; "Unprocessable Entity", "422" to
  INVALID_REQUEST; anything else to GENERATION_ERROR. \<open>categorizeError\<close> maps status 401,
  "API key", "unauthorized" to AUTH_ERROR; status 429, "quota", "rate" to RATE_LIMIT;
  "safety", "blocked" to SAFETY_BLOCK; status 422, "422", "invalid" to VALIDATION_ERROR;
  "TIMEOUT", "timed out" to TIMEOUT; anything else to API_ERROR. "Invalid API key" yields
  AUTH_ERROR in both, and "Rate limit exceeded (429)" yields RATE_LIMIT in the \<open>catch\<close>
  block of \<open>generate\<close>.
\<close>

theorem classifiers_implement_their_tables:
  "errorType msg = first_match generate_rules ''GENERATION_ERROR'' None msg \<and>
   category (categorizeError e) = first_match categorize_rules API_ERROR (status_of e) (message e) \<and>
   errorType ''Invalid API key'' = ''AUTH_ERROR'' \<and>
   errorType ''Rate limit exceeded (429)'' = ''RATE_LIMIT'' \<and>
   category (categorizeError \<lparr>message = ''Invalid API key'', status = None, statusCode = None\<rparr>)
     = AUTH_ERROR"
proof -
  have a: "errorType msg = first_match generate_rules ''GENERATION_ERROR'' None msg"
    by (simp add: errorType_def generate_rules_def)
  have b: "category (categorizeError e) =
           first_match categorize_rules API_ERROR (status_of e) (message e)"
    by (cases "status_of e")
       (simp_all add: categorizeError_def categorize_rules_def new_MCPError_def Let_def)
  have c: "errorType ''Invalid API key'' = ''AUTH_ERROR''"
    by (simp add: errorType_def)
  have d: "errorType ''Rate limit exceeded (429)'' = ''RATE_LIMIT''"
    by (simp add: errorType_def)
  have e: "category (categorizeError
             \<lparr>message = ''Invalid API key'', status = None, statusCode = None\<rparr>) = AUTH_ERROR"
    by (simp add: categorizeError_def new_MCPError_def status_of_def)
  from a b c d e show ?thesis by blast
qed

theorem classifiers_implement_their_tables_witness:
  "errorType ''request timed out'' = ''GENERATION_ERROR'' \<and>
   category (categorizeError \<lparr>message = ''request timed out'', status = Some 0,
                               statusCode = Some 429\<rparr>) = RATE_LIMIT"
  using classifiers_implement_their_tables
          [of "''request timed out''"
              "\<lparr>message = ''request timed out'', status = Some 0, statusCode = Some 429\<rparr>"]
  by (simp add: generate_rules_def categorize_rules_def status_of_def)

text \<open>
  C4 as stated fails on both classifiers. The message "invalid image size" is
  VALIDATION_ERROR by the stated table and GENERATION_ERROR in the \<open>catch\<close> block of
  \<open>generate\<close>; the message "Rate limit exceeded (429)", thrown without a status, is
  RATE_LIMIT by the stated table and API_ERROR by \<open>categorizeError\<close>, whose search for
  "rate" is case-sensitive and which does not look for "429" in the text.
\<close>

theorem stated_table_counterexample:
  "errorType ''invalid image size'' = ''GENERATION_ERROR'' \<and>
   first_match stated_rules ''GENERATION_ERROR'' None ''invalid image size'' = ''VALIDATION_ERROR'' \<and>
   category (categorizeError
     \<lparr>message = ''Rate limit exceeded (429)'', status = None, statusCode = None\<rparr>) = API_ERROR \<and>
   first_match stated_rules ''API_ERROR'' None ''Rate limit exceeded (429)'' = ''RATE_LIMIT''"
  by (simp add: errorType_def stated_rules_def categorizeError_def new_MCPError_def status_of_def)

section \<open>Properties of the request validation\<close>

lemma includes_str_append_right: "includes_str ys p \<Longrightarrow> includes_str (xs @ ys) p"
  by (simp add: includes_str_sublist sublist_appendI sublist_order.order_trans sublist_append_leftI)

lemma validate_auto_without_references:
  "validate (Some ''auto'') m [] res =
     Some (''Aspect ratio '' @ dquote @ ''auto'' @ dquote @
           '' is only valid when using reference_images. For text-to-image, use: '' @
           ''1:1, 2:3, 3:2, 3:4, 4:3, 4:5, 5:4, 9:16, 16:9, 21:9'')"
  by (simp add: validate_def or_default_def ASPECT_RATIOS_def)

lemma validate_unknown_ratio:
  "a \<noteq> [] \<Longrightarrow> a \<notin> set ASPECT_RATIOS_WITH_AUTO \<Longrightarrow>
   validate (Some a) m refs res =
     Some (''Invalid aspect ratio '' @ dquote @ a @ dquote @ ''. Valid options: '' @
           ''auto, 1:1, 2:3, 3:2, 3:4, 4:3, 4:5, 5:4, 9:16, 16:9, 21:9'')"
  by (simp add: validate_def or_default_def ASPECT_RATIOS_WITH_AUTO_def ASPECT_RATIOS_def Let_def)

lemma validate_too_many_references:
  "aspect_passes ar refs \<Longrightarrow> MAX_REFERENCE_IMAGES m < length refs \<Longrightarrow>
   validate ar m refs res =
     Some (''Maximum '' @ show_nat (MAX_REFERENCE_IMAGES m) @ '' reference images allowed for '' @
           model_name m)"
  by (auto simp add: validate_def aspect_passes_def Let_def)

lemma validate_resolution:
  "aspect_passes ar refs \<Longrightarrow> length refs \<le> MAX_REFERENCE_IMAGES NanoBanana \<Longrightarrow> res \<noteq> R1K \<Longrightarrow>
   validate ar NanoBanana refs res = Some ''Only nano-banana-pro supports 2K and 4K resolution''"
  by (auto simp add: validate_def aspect_passes_def Let_def)

lemma validate_passes:
  "validate ar m refs res = None \<longleftrightarrow>
     aspect_passes ar refs \<and> length refs \<le> MAX_REFERENCE_IMAGES m \<and> (m = NanoBananaPro \<or> res = R1K)"
  by (auto simp add: validate_def aspect_passes_def Let_def)

lemma generate_validation_failure:
  "validate (aspectRatio options) (or_default (model options) NanoBanana)
     (or_default (referenceImages options) []) (or_default (resolution options) R1K) = Some msg \<Longrightarrow>
   generate e options w = (Inl msg, w)"
  by (simp add: generate_def Let_def)

lemma validate_four_references_fast:
  assumes "length refs = 4"
  shows "\<exists>msg. validate ar NanoBanana refs res = Some msg \<and> includes_str msg ''3''"
proof (cases "aspect_passes ar refs")
  case True
  with assms have "validate ar NanoBanana refs res =
      Some (''Maximum '' @ show_nat (MAX_REFERENCE_IMAGES NanoBanana) @
            '' reference images allowed for '' @ model_name NanoBanana)"
    by (intro validate_too_many_references) simp_all
  then show ?thesis by (simp add: show_nat.simps digit_char_def)
next
  case False
  with assms obtain a where a: "ar = Some a" "a \<noteq> []" "a \<notin> set ASPECT_RATIOS_WITH_AUTO"
    by (cases ar) (auto simp: aspect_passes_def or_default_def)
  have "includes_str (''Invalid aspect ratio '' @ dquote @ a @ dquote @ ''. Valid options: '' @
          ''auto, 1:1, 2:3, 3:2, 3:4, 4:3, 4:5, 5:4, 9:16, 16:9, 21:9'') ''3''"
    by (intro includes_str_append_right) simp
  with a show ?thesis using validate_unknown_ratio [of a NanoBanana refs res] by simp
qed

text \<open>
  C6. The validation at the head of \<open>generate\<close> checks in this order and stops at the
  first violation: the aspect ratio \<open>auto\<close> without reference images is rejected with a
  message that names the legal ratios; an aspect ratio outside the extended set is
  rejected; a list of reference images longer than the ceiling of the model (3 for
  nano-banana, 14 for nano-banana-pro) is rejected with a message citing the ceiling; a
  resolution other than 1K with nano-banana is rejected. Validation passes exactly when
  none of the four applies. A failed validation makes \<open>generate\<close> fail with that message
  and with the world untouched: no call to the outside has been made. With four
  reference images and nano-banana the validation always fails with a message that
  contains "3", and once the aspect-ratio checks pass the message is the one citing the
  ceiling 3. (\<open>if (aspectRatio)\<close> treats an empty string like an absent ratio.)
\<close>

theorem validation_order:
  "(validate (Some ''auto'') m [] res =
      Some (''Aspect ratio '' @ dquote @ ''auto'' @ dquote @
            '' is only valid when using reference_images. For text-to-image, use: '' @
            ''1:1, 2:3, 3:2, 3:4, 4:3, 4:5, 5:4, 9:16, 16:9, 21:9'')) \<and>
   (a \<noteq> [] \<and> a \<notin> set ASPECT_RATIOS_WITH_AUTO \<longrightarrow>
      validate (Some a) m refs res =
        Some (''Invalid aspect ratio '' @ dquote @ a @ dquote @ ''. Valid options: '' @
              ''auto, 1:1, 2:3, 3:2, 3:4, 4:3, 4:5, 5:4, 9:16, 16:9, 21:9'')) \<and>
   (aspect_passes ar refs \<and> MAX_REFERENCE_IMAGES m < length refs \<longrightarrow>
      validate ar m refs res =
        Some (''Maximum '' @ show_nat (MAX_REFERENCE_IMAGES m) @
              '' reference images allowed for '' @ model_name m)) \<and>
   (aspect_passes ar refs \<and> length refs \<le> MAX_REFERENCE_IMAGES NanoBanana \<and> res \<noteq> R1K \<longrightarrow>
      validate ar NanoBanana refs res =
        Some ''Only nano-banana-pro supports 2K and 4K resolution'') \<and>
   (validate ar m refs res = None \<longleftrightarrow>
      aspect_passes ar refs \<and> length refs \<le> MAX_REFERENCE_IMAGES m \<and>
      (m = NanoBananaPro \<or> res = R1K)) \<and>
   (validate (aspectRatio options) (or_default (model options) NanoBanana)
      (or_default (referenceImages options) []) (or_default (resolution options) R1K) = Some msg \<longrightarrow>
      generate e options w = (Inl msg, w)) \<and>
   (length refs = 4 \<longrightarrow>
      (\<exists>msg. validate ar NanoBanana refs res = Some msg \<and> includes_str msg ''3'') \<and>
      (aspect_passes ar refs \<longrightarrow>
         validate ar NanoBanana refs res =
           Some ''Maximum 3 reference images allowed for nano-banana''))"
proof (intro conjI impI)
  show "validate (Some ''auto'') m [] res =
      Some (''Aspect ratio '' @ dquote @ ''auto'' @ dquote @
            '' is only valid when using reference_images. For text-to-image, use: '' @
            ''1:1, 2:3, 3:2, 3:4, 4:3, 4:5, 5:4, 9:16, 16:9, 21:9'')"
    by (rule validate_auto_without_references)
next
  assume "a \<noteq> [] \<and> a \<notin> set ASPECT_RATIOS_WITH_AUTO"
  then show "validate (Some a) m refs res =
        Some (''Invalid aspect ratio '' @ dquote @ a @ dquote @ ''. Valid options: '' @
              ''auto, 1:1, 2:3, 3:2, 3:4, 4:3, 4:5, 5:4, 9:16, 16:9, 21:9'')"
    by (simp add: validate_unknown_ratio)
next
  assume "aspect_passes ar refs \<and> MAX_REFERENCE_IMAGES m < length refs"
  then show "validate ar m refs res =
        Some (''Maximum '' @ show_nat (MAX_REFERENCE_IMAGES m) @
              '' reference images allowed for '' @ model_name m)"
    by (simp add: validate_too_many_references)
next
  assume "aspect_passes ar refs \<and> length refs \<le> MAX_REFERENCE_IMAGES NanoBanana \<and> res \<noteq> R1K"
  then show "validate ar NanoBanana refs res =
        Some ''Only nano-banana-pro supports 2K and 4K resolution''"
    by (simp add: validate_resolution)
next
  show "validate ar m refs res = None \<longleftrightarrow>
      aspect_passes ar refs \<and> length refs \<le> MAX_REFERENCE_IMAGES m \<and>
      (m = NanoBananaPro \<or> res = R1K)"
    by (rule validate_passes)
next
  assume "validate (aspectRatio options) (or_default (model options) NanoBanana)
      (or_default (referenceImages options) []) (or_default (resolution options) R1K) = Some msg"
  then show "generate e options w = (Inl msg, w)"
    by (rule generate_validation_failure)
next
  assume "length refs = 4"
  then show "\<exists>msg. validate ar NanoBanana refs res = Some msg \<and> includes_str msg ''3''"
    by (rule validate_four_references_fast)
next
  assume "length refs = 4" and "aspect_passes ar refs"
  then show "validate ar NanoBanana refs res =
           Some ''Maximum 3 reference images allowed for nano-banana''"
    by (simp add: validate_too_many_references show_nat.simps digit_char_def)
qed

theorem validation_order_witness:
  "validate (Some ''7:7'') NanoBananaPro [] R1K =
     Some (''Invalid aspect ratio '' @ dquote @ ''7:7'' @ dquote @
           ''. Valid options: auto, 1:1, 2:3, 3:2, 3:4, 4:3, 4:5, 5:4, 9:16, 16:9, 21:9'') \<and>
   validate None NanoBanana [] R4K = Some ''Only nano-banana-pro supports 2K and 4K resolution'' \<and>
   generate env0 four_refs_request world0 =
     (Inl ''Maximum 3 reference images allowed for nano-banana'', world0) \<and>
   validate None NanoBananaPro (replicate 15 ''https://x/1.jpg'') R1K =
     Some ''Maximum 14 reference images allowed for nano-banana-pro''"
proof -
  have r: "or_default (referenceImages four_refs_request) [] =
        [''https://x/1.jpg'', ''https://x/2.jpg'', ''https://x/3.jpg'', ''https://x/4.jpg'']"
    by (simp add: four_refs_request_def or_default_def)
  have p: "aspect_passes (Some ''auto'') [''https://x/1.jpg'', ''https://x/2.jpg'', ''https://x/3.jpg'', ''https://x/4.jpg'']"
    by (simp add: aspect_passes_def or_default_def ASPECT_RATIOS_WITH_AUTO_def)
  have q: "aspect_passes None []"
    by (simp add: aspect_passes_def or_default_def)
  have o: "aspectRatio four_refs_request = Some ''auto''" "or_default (model four_refs_request) NanoBanana = NanoBanana"
      "or_default (resolution four_refs_request) R1K = R1K"
    by (simp_all add: four_refs_request_def or_default_def)
  note t1 = validation_order [where a = "''7:7''" and m = NanoBananaPro and refs = "[]" and res = R1K]
  note t2 = validation_order [where ar = None and refs = "[]" and res = R4K]
  note t3 = validation_order [where refs = "[''https://x/1.jpg'', ''https://x/2.jpg'', ''https://x/3.jpg'', ''https://x/4.jpg'']"
      and res = R1K and ar = "Some ''auto''" and options = four_refs_request
      and msg = "''Maximum 3 reference images allowed for nano-banana''" and e = env0 and w = world0]
  have a: "validate (Some ''7:7'') NanoBananaPro [] R1K =
     Some (''Invalid aspect ratio '' @ dquote @ ''7:7'' @ dquote @
           ''. Valid options: auto, 1:1, 2:3, 3:2, 3:4, 4:3, 4:5, 5:4, 9:16, 16:9, 21:9'')"
    using t1 by (simp add: ASPECT_RATIOS_WITH_AUTO_def ASPECT_RATIOS_def)
  have b: "validate None NanoBanana [] R4K = Some ''Only nano-banana-pro supports 2K and 4K resolution''"
    using t2 q by simp
  have c: "generate env0 four_refs_request world0 =
     (Inl ''Maximum 3 reference images allowed for nano-banana'', world0)"
    using t3 p r o by simp
  have d: "validate None NanoBananaPro (replicate 15 ''https://x/1.jpg'') R1K =
     Some ''Maximum 14 reference images allowed for nano-banana-pro''"
    using validation_order [where ar = None and refs = "replicate 15 ''https://x/1.jpg''"
        and m = NanoBananaPro and res = R1K]
    by (simp add: aspect_passes_def or_default_def show_nat.simps digit_char_def)
  from a b c d show ?thesis by simp
qed

section \<open>Properties of the retry loop\<close>

lemma generate_opts_simps [simp]:
  "opts_maxRetries generate_opts = 2"
  "opts_initialDelayMs generate_opts = 1000"
  "opts_maxDelayMs generate_opts = 30000"
  "opts_backoffMultiplier generate_opts = 2"
  "opts_retryableErrors generate_opts = [''RATE_LIMIT'', ''429'', ''503'', ''502'', ''ECONNRESET'', ''ETIMEDOUT'']"
  by (simp_all add: generate_opts_def spread_def DEFAULT_RETRY_OPTIONS_def generate_retry_options_def or_default_def)

lemma sleeps_append [simp]: "sleeps (xs @ ys) = sleeps xs @ sleeps ys"
  by (induction xs rule: sleeps.induct) simp_all

lemma withRetry_loop_success:
  "attempt \<le> opts_maxRetries opts \<Longrightarrow> fn w = (Inr v, w') \<Longrightarrow>
   withRetry_loop fn opts attempt delay le w = (Inr v, w')"
  by (subst withRetry_loop.simps) simp

lemma withRetry_loop_stop:
  "attempt \<le> opts_maxRetries opts \<Longrightarrow> fn w = (Inl m, w') \<Longrightarrow>
   attempt = opts_maxRetries opts \<or> \<not> isRetryable m (opts_retryableErrors opts) \<Longrightarrow>
   withRetry_loop fn opts attempt delay le w = (Inl m, w')"
  by (subst withRetry_loop.simps) auto

lemma withRetry_loop_retry:
  "attempt < opts_maxRetries opts \<Longrightarrow> fn w = (Inl m, w') \<Longrightarrow>
   isRetryable m (opts_retryableErrors opts) \<Longrightarrow>
   withRetry_loop fn opts attempt delay le w =
     withRetry_loop fn opts (attempt + 1)
       (min (delay * opts_backoffMultiplier opts) (opts_maxDelayMs opts)) m (sleep delay w')"
  by (subst withRetry_loop.simps) auto

lemma sleep_simps [simp]:
  "now (sleep ms w) = now w + ms"
  "trace (sleep ms w) = trace w @ [Sleep ms]"
  "files (sleep ms w) = files w"
  "dirs (sleep ms w) = dirs w"
  by (simp_all add: sleep_def tick_def log_event_def)




section \<open>Properties of the upstream call\<close>

lemma withRetry_generate:
  "withRetry fn generate_retry_options w = withRetry_loop fn generate_opts 0 1000 ''undefined'' w"
  by (simp add: withRetry_def Let_def generate_opts_def[symmetric])


lemma generate_retryable_iff:
  "generate_retryable m \<longleftrightarrow>
     includes_str (toLowerCase m) ''rate_limit'' \<or> includes_str (toLowerCase m) ''429'' \<or>
     includes_str (toLowerCase m) ''503'' \<or> includes_str (toLowerCase m) ''502'' \<or>
     includes_str (toLowerCase m) ''econnreset'' \<or> includes_str (toLowerCase m) ''etimedout''"
  by (simp add: generate_retryable_def isRetryable_def toLowerCase_def lower_char_def)


lemma timeout_message_default:
  "timeout_message DEFAULT_TIMEOUT_MS = ''TIMEOUT: Operation timed out after 180000ms''"
  by (simp add: timeout_message_def DEFAULT_TIMEOUT_MS_def show_nat.simps digit_char_def)

lemma timeout_not_retryable: "\<not> generate_retryable (timeout_message DEFAULT_TIMEOUT_MS)"
proof -
  have l: "toLowerCase ''TIMEOUT: Operation timed out after 180000ms'' =
           ''timeout: operation timed out after 180000ms''"
    by (simp add: toLowerCase_def lower_char_def)
  show ?thesis
    unfolding generate_retryable_iff timeout_message_default l by simp
qed

lemma isRetryableI:
  "p \<in> set pats \<Longrightarrow> includes_str (toLowerCase m) (toLowerCase p) \<Longrightarrow> isRetryable m pats"
  by (auto simp: isRetryable_def list_ex_iff)

lemma includes_str_self: "includes_str s s"
  by (simp add: includes_str_sublist)

lemma retry_once_fails:
  "fn w = (Inl m, w1) \<Longrightarrow> \<not> generate_retryable m \<Longrightarrow>
   withRetry fn generate_retry_options w = (Inl m, w1)"
  by (simp add: withRetry_generate withRetry_loop_stop generate_retryable_def)

lemma retry_first:
  "fn w = (Inl m, w1) \<Longrightarrow> generate_retryable m \<Longrightarrow>
   withRetry fn generate_retry_options w =
     withRetry_loop fn generate_opts (Suc 0) 2000 m (sleep 1000 w1)"
  using withRetry_loop_retry [of 0 generate_opts fn w m w1 1000 "''undefined''"]
  by (simp add: withRetry_generate generate_retryable_def)

lemma retry_second:
  "fn w = (Inl m, w1) \<Longrightarrow> generate_retryable m \<Longrightarrow>
   withRetry_loop fn generate_opts (Suc 0) 2000 le w =
     withRetry_loop fn generate_opts (Suc (Suc 0)) 4000 m (sleep 2000 w1)"
  using withRetry_loop_retry [of "Suc 0" generate_opts fn w m w1 2000 le]
  by (simp add: generate_retryable_def)

lemma retry_last:
  "fn w = (r, w1) \<Longrightarrow> withRetry_loop fn generate_opts (Suc (Suc 0)) d le w = (r, w1)"
  by (cases r) (simp_all add: withRetry_loop_stop withRetry_loop_success)


text \<open>
  C2, as the code has it. \<open>generate\<close> passes its own list of retryable signals, which
  replaces the default list: a failed attempt of the upstream call is retried exactly
  when its message contains, case-insensitively, one of RATE_LIMIT, 429, 503, 502,
  ECONNRESET, ETIMEDOUT. A first failure that matches none of them propagates at once,
  with no sleep and no second attempt; a matching failure is followed by a sleep of
  1000 ms and a second attempt, a second matching failure by a sleep of 2000 ms and a
  third attempt, and whatever the third attempt gives is the result: at most two
  additional attempts.
\<close>

theorem retry_policy_of_generate:
  "(generate_retryable m \<longleftrightarrow>
      includes_str (toLowerCase m) ''rate_limit'' \<or> includes_str (toLowerCase m) ''429'' \<or>
      includes_str (toLowerCase m) ''503'' \<or> includes_str (toLowerCase m) ''502'' \<or>
      includes_str (toLowerCase m) ''econnreset'' \<or> includes_str (toLowerCase m) ''etimedout'') \<and>
   (fn w = (Inl m, w1) \<and> \<not> generate_retryable m \<longrightarrow>
      withRetry fn generate_retry_options w = (Inl m, w1)) \<and>
   (fn w = (Inl m, w1) \<and> generate_retryable m \<and> fn (sleep 1000 w1) = (Inr v, w2) \<longrightarrow>
      withRetry fn generate_retry_options w = (Inr v, w2)) \<and>
   (fn w = (Inl m, w1) \<and> generate_retryable m \<and> fn (sleep 1000 w1) = (Inl m2, w2) \<and>
    \<not> generate_retryable m2 \<longrightarrow>
      withRetry fn generate_retry_options w = (Inl m2, w2)) \<and>
   (fn w = (Inl m, w1) \<and> generate_retryable m \<and> fn (sleep 1000 w1) = (Inl m2, w2) \<and>
    generate_retryable m2 \<and> fn (sleep 2000 w2) = (r3, w3) \<longrightarrow>
      withRetry fn generate_retry_options w = (r3, w3))"
proof (intro conjI impI)
  show "generate_retryable m \<longleftrightarrow>
      includes_str (toLowerCase m) ''rate_limit'' \<or> includes_str (toLowerCase m) ''429'' \<or>
      includes_str (toLowerCase m) ''503'' \<or> includes_str (toLowerCase m) ''502'' \<or>
      includes_str (toLowerCase m) ''econnreset'' \<or> includes_str (toLowerCase m) ''etimedout''"
    by (rule generate_retryable_iff)
next
  assume "fn w = (Inl m, w1) \<and> \<not> generate_retryable m"
  then show "withRetry fn generate_retry_options w = (Inl m, w1)"
    by (simp add: retry_once_fails)
next
  assume "fn w = (Inl m, w1) \<and> generate_retryable m \<and> fn (sleep 1000 w1) = (Inr v, w2)"
  then show "withRetry fn generate_retry_options w = (Inr v, w2)"
    by (simp add: retry_first withRetry_loop_success)
next
  assume "fn w = (Inl m, w1) \<and> generate_retryable m \<and> fn (sleep 1000 w1) = (Inl m2, w2) \<and>
    \<not> generate_retryable m2"
  then show "withRetry fn generate_retry_options w = (Inl m2, w2)"
    by (simp add: retry_first withRetry_loop_stop generate_retryable_def)
next
  assume "fn w = (Inl m, w1) \<and> generate_retryable m \<and> fn (sleep 1000 w1) = (Inl m2, w2) \<and>
    generate_retryable m2 \<and> fn (sleep 2000 w2) = (r3, w3)"
  then show "withRetry fn generate_retry_options w = (r3, w3)"
    by (simp add: retry_first retry_second retry_last)
qed

lemma flaky_retryable: "generate_retryable ''HTTP 429''"
  by (simp add: generate_retryable_iff toLowerCase_def lower_char_def)

theorem retry_policy_of_generate_witness:
  "withRetry flaky generate_retry_options world0 =
     (Inr 3000, world0\<lparr>now := 3000, trace := [Sleep 1000, Sleep 2000]\<rparr>) \<and>
   withRetry (\<lambda>w. (Inl ''ENOTFOUND api.fal.ai'' :: string + nat, w)) generate_retry_options world0 =
     (Inl ''ENOTFOUND api.fal.ai'', world0) \<and>
   withRetry (\<lambda>w. (if now w < 1000 then Inl ''HTTP 503'' else Inr (now w), w))
       generate_retry_options world0 =
     (Inr 1000, world0\<lparr>now := 1000, trace := [Sleep 1000]\<rparr>) \<and>
   withRetry (\<lambda>w. (if now w < 1000 then Inl ''HTTP 503'' else Inl ''bad request'' :: string + nat, w))
       generate_retry_options world0 =
     (Inl ''bad request'', world0\<lparr>now := 1000, trace := [Sleep 1000]\<rparr>)"
proof -
  have n: "\<not> generate_retryable ''ENOTFOUND api.fal.ai''"
    by (simp add: generate_retryable_iff toLowerCase_def lower_char_def)
  have a: "flaky world0 = (Inl ''HTTP 429'', world0)"
    by (simp add: flaky_def world0_def)
  have b: "flaky (sleep 1000 world0) = (Inl ''HTTP 429'', sleep 1000 world0)"
    by (simp add: flaky_def world0_def)
  have c: "flaky (sleep 2000 (sleep 1000 world0)) = (Inr 3000, sleep 2000 (sleep 1000 world0))"
    by (simp add: flaky_def world0_def)
  have d: "sleep 2000 (sleep 1000 world0) = world0\<lparr>now := 3000, trace := [Sleep 1000, Sleep 2000]\<rparr>"
    by (simp add: sleep_def tick_def log_event_def world0_def)
  have d1: "sleep 1000 world0 = world0\<lparr>now := 1000, trace := [Sleep 1000]\<rparr>"
    by (simp add: sleep_def tick_def log_event_def world0_def)
  from retry_policy_of_generate
         [where fn = flaky and w = world0 and m = "''HTTP 429''" and ?w1.0 = world0
            and ?m2.0 = "''HTTP 429''" and ?w2.0 = "sleep 1000 world0"
            and ?r3.0 = "Inr 3000" and ?w3.0 = "sleep 2000 (sleep 1000 world0)"]
       a b c flaky_retryable
  have 1: "withRetry flaky generate_retry_options world0 =
           (Inr 3000, sleep 2000 (sleep 1000 world0))"
    by blast
  from retry_policy_of_generate
         [where fn = "\<lambda>w. (Inl ''ENOTFOUND api.fal.ai'' :: string + nat, w)" and w = world0
            and m = "''ENOTFOUND api.fal.ai''" and ?w1.0 = world0] n
  have 2: "withRetry (\<lambda>w. (Inl ''ENOTFOUND api.fal.ai'' :: string + nat, w)) generate_retry_options world0 =
     (Inl ''ENOTFOUND api.fal.ai'', world0)"
    by blast
  have r5: "generate_retryable ''HTTP 503''"
    by (simp add: generate_retryable_iff toLowerCase_def lower_char_def)
  have nb: "\<not> generate_retryable ''bad request''"
    by (simp add: generate_retryable_iff toLowerCase_def lower_char_def)
  have z: "now world0 = 0" by (simp add: world0_def)
  from retry_policy_of_generate
         [where fn = "\<lambda>w. (if now w < 1000 then Inl ''HTTP 503'' else Inr (now w), w)"
            and w = world0 and m = "''HTTP 503''" and ?w1.0 = world0 and v = 1000
            and ?w2.0 = "sleep 1000 world0"] r5 z
  have 3: "withRetry (\<lambda>w. (if now w < 1000 then Inl ''HTTP 503'' else Inr (now w), w))
       generate_retry_options world0 = (Inr 1000, sleep 1000 world0)"
    by simp
  from retry_policy_of_generate
         [where fn = "\<lambda>w. (if now w < 1000 then Inl ''HTTP 503'' else Inl ''bad request'' :: string + nat, w)"
            and w = world0 and m = "''HTTP 503''" and ?w1.0 = world0 and ?m2.0 = "''bad request''"
            and ?w2.0 = "sleep 1000 world0"] r5 nb z
  have 4: "withRetry (\<lambda>w. (if now w < 1000 then Inl ''HTTP 503'' else Inl ''bad request'' :: string + nat, w))
       generate_retry_options world0 = (Inl ''bad request'', sleep 1000 world0)"
    by simp
  from 1 2 3 4 d d1 show ?thesis by simp
qed

lemma subscribe_call_simps [simp]:
  "fst (subscribe_call e modelId inp w) = fal_subscribe e w modelId inp"
  "snd (subscribe_call e modelId inp w) = log_event (Subscribe modelId inp) w"
  by (simp_all add: subscribe_call_def)

text \<open>
  C2 as stated fails: "too many requests" is one of the stated signals (it is in the
  default list), but the upstream call of \<open>generate\<close> is not retried on it. One call is
  made, nothing is slept, and the failure propagates.
\<close>

theorem retry_signals_counterexample:
  "isRetryable ''too many requests'' (opts_retryableErrors DEFAULT_RETRY_OPTIONS) \<and>
   call_api env_busy ''fal-ai/nano-banana'' example_input world0 =
     (Inl ''too many requests'',
      world0\<lparr>now := 5, trace := [Subscribe ''fal-ai/nano-banana'' example_input]\<rparr>)"
proof -
  have a: "isRetryable ''too many requests'' (opts_retryableErrors DEFAULT_RETRY_OPTIONS)"
    by (rule isRetryableI [where p = "''too many requests''"])
       (simp_all add: DEFAULT_RETRY_OPTIONS_def includes_str_self)
  have n: "\<not> generate_retryable ''too many requests''"
    by (simp add: generate_retryable_iff toLowerCase_def lower_char_def)
  have f: "withTimeout (subscribe_call env_busy ''fal-ai/nano-banana'' example_input) DEFAULT_TIMEOUT_MS world0
       = (Inl ''too many requests'', world0\<lparr>now := 5, trace := [Subscribe ''fal-ai/nano-banana'' example_input]\<rparr>)"
    by (simp add: withTimeout_def subscribe_call_def env_busy_def env0_def DEFAULT_TIMEOUT_MS_def
          tick_def log_event_def world0_def)
  from f n a show ?thesis by (simp add: call_api_def retry_once_fails)
qed








lemma subscribe_attempt_timeout:
  "\<not> settles_before t (fal_subscribe e w modelId inp) \<Longrightarrow>
   withTimeout (subscribe_call e modelId inp) t w =
     (Inl (timeout_message t), tick t (log_event (Subscribe modelId inp) w))"
  by (cases "fal_subscribe e w modelId inp")
     (simp_all add: withTimeout_def subscribe_call_def settles_before_def)




section \<open>Properties of the saved images\<close>

lemma writes_append [simp]: "writes (xs @ ys) = writes xs @ writes ys"
  by (induction xs rule: writes.induct) simp_all

lemma replace_extension_unchanged: "pattern_misses p \<Longrightarrow> replace_extension p ins = p"
proof (induction p)
  case Nil
  then show ?case by simp
next
  case (Cons c cs)
  from Cons.prems have a: "\<not> (c = CHR ''.'' \<and> cs \<noteq> [] \<and> CHR ''.'' \<notin> set cs)"
    by (auto simp: pattern_misses_def split: if_splits dest: last_in_set)
  from Cons.prems have "cs = [] \<or> pattern_misses cs"
    by (auto simp: pattern_misses_def)
  with Cons.IH a show ?case by auto
qed

lemma replace_extension_changed:
  "\<not> pattern_misses p \<Longrightarrow> ins \<noteq> [] \<Longrightarrow> replace_extension p ins \<noteq> p"
proof (induction p)
  case Nil
  then show ?case by (simp add: pattern_misses_def)
next
  case (Cons c cs)
  show ?case
  proof (cases "c = CHR ''.'' \<and> cs \<noteq> [] \<and> CHR ''.'' \<notin> set cs")
    case True
    have "length (replace_extension (c # cs) ins) = length ins + length (c # cs)"
      using True by simp
    with Cons.prems(2) show ?thesis by (metis add_cancel_right_left length_0_conv add.commute)
  next
    case False
    with Cons.prems have "\<not> pattern_misses cs"
      by (auto simp: pattern_misses_def split: if_splits)
    with Cons.IH Cons.prems False show ?thesis by simp
  qed
qed

lemma replace_extension_inserts:
  "ext \<noteq> [] \<Longrightarrow> CHR ''.'' \<notin> set ext \<Longrightarrow>
   replace_extension (stem @ CHR ''.'' # ext) ins = stem @ ins @ CHR ''.'' # ext"
  by (induction stem) auto

lemma downloadAndSave_ok:
  assumes "downloads_succeed e content"
  shows "\<exists>w'. downloadAndSave e u p w = (Inr (), w') \<and>
           writes (trace w') = writes (trace w) @ [(p, content u)] \<and>
           files w' = (files w)(p \<mapsto> content u)"
proof -
  from assms obtain d r where f: "http_fetch e w u = (d, Inr r)" "ok r" "body r = Inr (content u)"
    unfolding downloads_succeed_def by blast
  from assms have g: "\<And>w p. fs_error e w p = None"
    unfolding downloads_succeed_def by blast
  show ?thesis
    by (simp add: downloadAndSave_def f g Let_def mkdirSync_def writeFileSync_def
          tick_def log_event_def)
qed

lemma save_additional_ok:
  assumes "downloads_succeed e content"
  shows "\<exists>w'. save_additional e path imgs i w = (Inr (), w') \<and>
           writes (trace w') = writes (trace w) @
             map (\<lambda>(k, img). (numberedPath path k, content (url img))) (enumerate i imgs)"
proof (induction imgs arbitrary: i w)
  case Nil
  show ?case by simp
next
  case (Cons img imgs)
  from downloadAndSave_ok [OF assms, of "url img" "numberedPath path i" w]
  obtain w1 where 1: "downloadAndSave e (url img) (numberedPath path i) w = (Inr (), w1)"
    "writes (trace w1) = writes (trace w) @ [(numberedPath path i, content (url img))]"
    by blast
  from Cons.IH [of "i + 1" w1]
  obtain w' where 2: "save_additional e path imgs (i + 1) w1 = (Inr (), w')"
    "writes (trace w') = writes (trace w1) @
       map (\<lambda>(k, img). (numberedPath path k, content (url img))) (enumerate (i + 1) imgs)"
    by blast
  from 1 2 show ?case by simp
qed

lemma save_additional_same_path:
  assumes "downloads_succeed e content" and "pattern_misses path"
  shows "\<exists>w'. save_additional e path imgs i w = (Inr (), w') \<and>
           writes (trace w') = writes (trace w) @ map (\<lambda>img. (path, content (url img))) imgs \<and>
           files w' = (if imgs = [] then files w else (files w)(path \<mapsto> content (url (last imgs))))"
proof (induction imgs arbitrary: i w)
  case Nil
  show ?case by simp
next
  case (Cons img imgs)
  have n: "numberedPath path i = path"
    using assms(2) by (simp add: numberedPath_def replace_extension_unchanged)
  from downloadAndSave_ok [OF assms(1), of "url img" path w]
  obtain w1 where 1: "downloadAndSave e (url img) path w = (Inr (), w1)"
    "writes (trace w1) = writes (trace w) @ [(path, content (url img))]"
    "files w1 = (files w)(path \<mapsto> content (url img))"
    by blast
  from Cons.IH [of "i + 1" w1]
  obtain w' where 2: "save_additional e path imgs (i + 1) w1 = (Inr (), w')"
    "writes (trace w') = writes (trace w1) @ map (\<lambda>img. (path, content (url img))) imgs"
    "files w' = (if imgs = [] then files w1 else (files w1)(path \<mapsto> content (url (last imgs))))"
    by blast
  have a: "save_additional e path (img # imgs) i w = (Inr (), w')"
    using 1 2 n by simp
  have b: "writes (trace w') =
           writes (trace w) @ map (\<lambda>img. (path, content (url img))) (img # imgs)"
    using 1 2 by simp
  have c: "files w' = (files w)(path \<mapsto> content (url (last (img # imgs))))"
    using 1 2 by simp
  from a b c show ?case by (intro exI [of _ w']) simp
qed


lemma numberedPath_inserts:
  "ext \<noteq> [] \<Longrightarrow> CHR ''.'' \<notin> set ext \<Longrightarrow>
   numberedPath (stem @ ''.'' @ ext) i = stem @ ''_'' @ show_nat (i + 1) @ ''.'' @ ext"
  by (simp add: numberedPath_def replace_extension_inserts)

lemma numberedPath_unchanged_iff: "numberedPath path i = path \<longleftrightarrow> pattern_misses path"
proof -
  have "''_'' @ show_nat (i + 1) \<noteq> []" by simp
  then show ?thesis
    unfolding numberedPath_def
    using replace_extension_changed replace_extension_unchanged by blast
qed

lemma save_images_empty:
  "images response = None \<or> images response = Some [] \<Longrightarrow>
   save_images e response path n w = (Inl ''No image data found in response'', w)"
  by (auto simp: save_images_def)

text \<open>
  C7. For a response with three images, \<open>numImages = 3\<close> and the output path
  \<open>/tmp/x.png\<close>, when every download succeeds, the files written are exactly
  \<open>/tmp/x.png\<close>, \<open>/tmp/x_2.png\<close> and \<open>/tmp/x_3.png\<close>, in that order, each with the bytes
  fetched from the URL of the response image at the same index. In general, for a path
  that ends with a dot and a non-empty extension without a dot, the numbered path has
  \<open>_<n>\<close> inserted immediately before that dot. When \<open>response.images\<close> is absent or
  empty, the step fails with an error and nothing is fetched or written.
\<close>

theorem numbered_siblings:
  "(downloads_succeed e content \<and> images response = Some [i0, i1, i2] \<longrightarrow>
      (\<exists>w'. save_images e response ''/tmp/x.png'' 3 w = (Inr (), w') \<and>
            writes (trace w') = writes (trace w) @
              [(''/tmp/x.png'', content (url i0)), (''/tmp/x_2.png'', content (url i1)),
               (''/tmp/x_3.png'', content (url i2))] \<and>
            files w' = (files w)(''/tmp/x.png'' \<mapsto> content (url i0),
                                 ''/tmp/x_2.png'' \<mapsto> content (url i1),
                                 ''/tmp/x_3.png'' \<mapsto> content (url i2)))) \<and>
   (ext \<noteq> [] \<and> CHR ''.'' \<notin> set ext \<longrightarrow>
      numberedPath (stem @ ''.'' @ ext) i = stem @ ''_'' @ show_nat (i + 1) @ ''.'' @ ext) \<and>
   (images response = None \<or> images response = Some [] \<longrightarrow>
      save_images e response path n w = (Inl ''No image data found in response'', w))"
proof (intro conjI impI)
  assume a: "downloads_succeed e content \<and> images response = Some [i0, i1, i2]"
  then have d: "downloads_succeed e content" by simp
  have p1: "numberedPath ''/tmp/x.png'' (Suc 0) = ''/tmp/x_2.png''"
    by (simp add: numberedPath_def show_nat.simps digit_char_def)
  have p2: "numberedPath ''/tmp/x.png'' (Suc (Suc 0)) = ''/tmp/x_3.png''"
    by (simp add: numberedPath_def show_nat.simps digit_char_def)
  from downloadAndSave_ok [OF d, of "url i0" "''/tmp/x.png''" w]
  obtain w1 where 1: "downloadAndSave e (url i0) ''/tmp/x.png'' w = (Inr (), w1)"
    "writes (trace w1) = writes (trace w) @ [(''/tmp/x.png'', content (url i0))]"
    "files w1 = (files w)(''/tmp/x.png'' \<mapsto> content (url i0))"
    by blast
  from downloadAndSave_ok [OF d, of "url i1" "''/tmp/x_2.png''" w1]
  obtain w2 where 2: "downloadAndSave e (url i1) ''/tmp/x_2.png'' w1 = (Inr (), w2)"
    "writes (trace w2) = writes (trace w1) @ [(''/tmp/x_2.png'', content (url i1))]"
    "files w2 = (files w1)(''/tmp/x_2.png'' \<mapsto> content (url i1))"
    by blast
  from downloadAndSave_ok [OF d, of "url i2" "''/tmp/x_3.png''" w2]
  obtain w3 where 3: "downloadAndSave e (url i2) ''/tmp/x_3.png'' w2 = (Inr (), w3)"
    "writes (trace w3) = writes (trace w2) @ [(''/tmp/x_3.png'', content (url i2))]"
    "files w3 = (files w2)(''/tmp/x_3.png'' \<mapsto> content (url i2))"
    by blast
  have r: "save_images e response ''/tmp/x.png'' 3 w = (Inr (), w3)"
    using a 1 2 3 p1 p2 by (simp add: save_images_def)
  have t: "writes (trace w3) = writes (trace w) @
              [(''/tmp/x.png'', content (url i0)), (''/tmp/x_2.png'', content (url i1)),
               (''/tmp/x_3.png'', content (url i2))]"
    using 1 2 3 by simp
  have f: "files w3 = (files w)(''/tmp/x.png'' \<mapsto> content (url i0),
                                 ''/tmp/x_2.png'' \<mapsto> content (url i1),
                                 ''/tmp/x_3.png'' \<mapsto> content (url i2))"
    using 1 2 3 by simp
  from r t f show "\<exists>w'. save_images e response ''/tmp/x.png'' 3 w = (Inr (), w') \<and>
            writes (trace w') = writes (trace w) @
              [(''/tmp/x.png'', content (url i0)), (''/tmp/x_2.png'', content (url i1)),
               (''/tmp/x_3.png'', content (url i2))] \<and>
            files w' = (files w)(''/tmp/x.png'' \<mapsto> content (url i0),
                                 ''/tmp/x_2.png'' \<mapsto> content (url i1),
                                 ''/tmp/x_3.png'' \<mapsto> content (url i2))"
    by (intro exI [of _ w3]) simp
next
  assume "ext \<noteq> [] \<and> CHR ''.'' \<notin> set ext"
  then show "numberedPath (stem @ ''.'' @ ext) i = stem @ ''_'' @ show_nat (i + 1) @ ''.'' @ ext"
    using numberedPath_inserts [of ext stem i] by blast
next
  assume "images response = None \<or> images response = Some []"
  then show "save_images e response path n w = (Inl ''No image data found in response'', w)"
    by (rule save_images_empty)
qed

lemma pattern_misses_iff:
  "pattern_misses path \<longleftrightarrow>
     \<not> (\<exists>stem ext. path = stem @ ''.'' @ ext \<and> ext \<noteq> [] \<and> CHR ''.'' \<notin> set ext)"
proof
  assume m: "pattern_misses path"
  show "\<not> (\<exists>stem ext. path = stem @ ''.'' @ ext \<and> ext \<noteq> [] \<and> CHR ''.'' \<notin> set ext)"
  proof
    assume "\<exists>stem ext. path = stem @ ''.'' @ ext \<and> ext \<noteq> [] \<and> CHR ''.'' \<notin> set ext"
    then obtain stem ext where p: "path = stem @ ''.'' @ ext" "ext \<noteq> []" "CHR ''.'' \<notin> set ext"
      by blast
    then have "last path = last ext" by simp
    with p have "last path \<noteq> CHR ''.''" using last_in_set [of ext] by metis
    moreover from p have "CHR ''.'' \<in> set path" by simp
    ultimately show False using m by (simp add: pattern_misses_def)
  qed
next
  assume n: "\<not> (\<exists>stem ext. path = stem @ ''.'' @ ext \<and> ext \<noteq> [] \<and> CHR ''.'' \<notin> set ext)"
  show "pattern_misses path"
  proof (rule ccontr)
    assume "\<not> pattern_misses path"
    then have d: "CHR ''.'' \<in> set path" and l: "path = [] \<or> last path \<noteq> CHR ''.''"
      by (auto simp: pattern_misses_def)
    from split_list_last [OF d] obtain stem ext where
      p: "path = stem @ CHR ''.'' # ext" "CHR ''.'' \<notin> set ext" by blast
    with l have "ext \<noteq> []" by auto
    with p n show False by auto
  qed
qed

text \<open>
  C10, as the code has it. The numbered path equals the output path exactly when the
  pattern \<open>/(\.[^.]+)$/\<close> does not match the output path, that is, when the path has no
  dot at all or ends with a dot. In that case, when more than one image is requested and
  the response has \<open>k > 1\<close> images (and every download succeeds), all \<open>k\<close> images are
  written to the one path \<open>outputPath\<close>, in the order of the response, each write
  replacing the one before; afterwards the file holds the bytes of the last image of the
  response and no other file has been created or changed.
\<close>

theorem single_path_overwritten:
  "(numberedPath path i = path \<longleftrightarrow> pattern_misses path) \<and>
   (pattern_misses path \<longleftrightarrow>
      \<not> (\<exists>stem ext. path = stem @ ''.'' @ ext \<and> ext \<noteq> [] \<and> CHR ''.'' \<notin> set ext)) \<and>
   (pattern_misses path \<and> downloads_succeed e content \<and> images response = Some imgs \<and>
    1 < length imgs \<and> 1 < n \<longrightarrow>
      (\<exists>w'. save_images e response path n w = (Inr (), w') \<and>
            writes (trace w') = writes (trace w) @ map (\<lambda>img. (path, content (url img))) imgs \<and>
            files w' = (files w)(path \<mapsto> content (url (last imgs)))))"
proof (intro conjI impI)
  show "numberedPath path i = path \<longleftrightarrow> pattern_misses path"
    by (rule numberedPath_unchanged_iff)
next
  show "pattern_misses path \<longleftrightarrow>
      \<not> (\<exists>stem ext. path = stem @ ''.'' @ ext \<and> ext \<noteq> [] \<and> CHR ''.'' \<notin> set ext)"
    by (rule pattern_misses_iff)
next
  assume a: "pattern_misses path \<and> downloads_succeed e content \<and> images response = Some imgs \<and>
    1 < length imgs \<and> 1 < n"
  then obtain img0 others where l: "imgs = img0 # others" "others \<noteq> []"
    by (cases imgs) auto
  from a have d: "downloads_succeed e content" and x: "pattern_misses path" by simp_all
  from downloadAndSave_ok [OF d, of "url img0" path w]
  obtain w1 where 1: "downloadAndSave e (url img0) path w = (Inr (), w1)"
    "writes (trace w1) = writes (trace w) @ [(path, content (url img0))]"
    "files w1 = (files w)(path \<mapsto> content (url img0))"
    by blast
  from save_additional_same_path [OF d x, of others 1 w1] l
  obtain w' where 2: "save_additional e path others 1 w1 = (Inr (), w')"
    "writes (trace w') = writes (trace w1) @ map (\<lambda>img. (path, content (url img))) others"
    "files w' = (files w1)(path \<mapsto> content (url (last others)))"
    by auto
  have r: "save_images e response path n w = (Inr (), w')"
    using a l 1 2 by (simp add: save_images_def)
  have t: "writes (trace w') = writes (trace w) @ map (\<lambda>img. (path, content (url img))) imgs"
    using l 1 2 by simp
  have f: "files w' = (files w)(path \<mapsto> content (url (last imgs)))"
    using l 1 2 by simp
  from r t f show "\<exists>w'. save_images e response path n w = (Inr (), w') \<and>
            writes (trace w') = writes (trace w) @ map (\<lambda>img. (path, content (url img))) imgs \<and>
            files w' = (files w)(path \<mapsto> content (url (last imgs)))"
    by (intro exI [of _ w']) simp
qed


lemma env_ok_downloads: "downloads_succeed env_ok page"
  by (simp add: downloads_succeed_def env_ok_def env0_def ok_def)

theorem numbered_siblings_witness:
  "fst (save_images env_ok three_images ''/tmp/x.png'' 3 world0) = Inr () \<and>
   writes (trace (snd (save_images env_ok three_images ''/tmp/x.png'' 3 world0))) =
     [(''/tmp/x.png'', ''bytes of https://cdn/a''), (''/tmp/x_2.png'', ''bytes of https://cdn/b''),
      (''/tmp/x_3.png'', ''bytes of https://cdn/c'')] \<and>
   numberedPath ''/tmp/x.png'' 1 = ''/tmp/x_2.png'' \<and>
   save_images env_ok \<lparr>images = Some []\<rparr> ''/tmp/x.png'' 3 world0 =
     (Inl ''No image data found in response'', world0)"
proof -
  note t = numbered_siblings
      [where e = env_ok and content = page and response = three_images
         and ?i0.0 = "\<lparr>url = ''https://cdn/a''\<rparr>" and ?i1.0 = "\<lparr>url = ''https://cdn/b''\<rparr>"
         and ?i2.0 = "\<lparr>url = ''https://cdn/c''\<rparr>" and w = world0
         and ext = "''png''" and stem = "''/tmp/x''" and i = 1]
  from t env_ok_downloads
  obtain w' where w': "save_images env_ok three_images ''/tmp/x.png'' 3 world0 = (Inr (), w')"
    "writes (trace w') = writes (trace world0) @
       [(''/tmp/x.png'', page ''https://cdn/a''), (''/tmp/x_2.png'', page ''https://cdn/b''),
        (''/tmp/x_3.png'', page ''https://cdn/c'')]"
    by (auto simp: three_images_def)
  have a: "fst (save_images env_ok three_images ''/tmp/x.png'' 3 world0) = Inr ()"
    using w' by simp
  have b: "writes (trace (snd (save_images env_ok three_images ''/tmp/x.png'' 3 world0))) =
     [(''/tmp/x.png'', ''bytes of https://cdn/a''), (''/tmp/x_2.png'', ''bytes of https://cdn/b''),
      (''/tmp/x_3.png'', ''bytes of https://cdn/c'')]"
    using w' by (simp add: world0_def page_def)
  have c: "numberedPath ''/tmp/x.png'' 1 = ''/tmp/x_2.png''"
    using t by (simp add: show_nat.simps digit_char_def)
  have d: "save_images env_ok \<lparr>images = Some []\<rparr> ''/tmp/x.png'' 3 world0 =
     (Inl ''No image data found in response'', world0)"
    using numbered_siblings [where response = "\<lparr>images = Some []\<rparr>" and e = env_ok
        and path = "''/tmp/x.png''" and n = 3 and w = world0]
    by simp
  from a b c d show ?thesis by simp
qed

theorem single_path_overwritten_witness:
  "numberedPath ''/tmp/out'' 1 = ''/tmp/out'' \<and>
   fst (save_images env_ok three_images ''/tmp/out'' 3 world0) = Inr () \<and>
   writes (trace (snd (save_images env_ok three_images ''/tmp/out'' 3 world0))) =
     [(''/tmp/out'', ''bytes of https://cdn/a''), (''/tmp/out'', ''bytes of https://cdn/b''),
      (''/tmp/out'', ''bytes of https://cdn/c'')] \<and>
   files (snd (save_images env_ok three_images ''/tmp/out'' 3 world0)) =
     [''/tmp/out'' \<mapsto> ''bytes of https://cdn/c'']"
proof -
  have x: "pattern_misses ''/tmp/out''" by (simp add: pattern_misses_def)
  note t = single_path_overwritten
      [where e = env_ok and content = page and response = three_images and path = "''/tmp/out''"
         and imgs = "[\<lparr>url = ''https://cdn/a''\<rparr>, \<lparr>url = ''https://cdn/b''\<rparr>, \<lparr>url = ''https://cdn/c''\<rparr>]"
         and n = 3 and w = world0 and i = 1]
  from t x env_ok_downloads
  obtain w' where w': "save_images env_ok three_images ''/tmp/out'' 3 world0 = (Inr (), w')"
    "writes (trace w') = writes (trace world0) @
       map (\<lambda>img. (''/tmp/out'', page (url img)))
         [\<lparr>url = ''https://cdn/a''\<rparr>, \<lparr>url = ''https://cdn/b''\<rparr>, \<lparr>url = ''https://cdn/c''\<rparr>]"
    "files w' = (files world0)(''/tmp/out'' \<mapsto> page (url (last
         [\<lparr>url = ''https://cdn/a''\<rparr>, \<lparr>url = ''https://cdn/b''\<rparr>, \<lparr>url = ''https://cdn/c''\<rparr>])))"
    by (auto simp: three_images_def)
  have a: "numberedPath ''/tmp/out'' 1 = ''/tmp/out''" using t x by simp
  from w' a show ?thesis by (simp add: world0_def page_def)
qed

text \<open>
  C10 as stated fails for a path whose file name has no extension but which has a dot
  before its last slash: the pattern matches from that dot to the end. For \<open>./out\<close> the
  numbered paths are \<open>_2./out\<close> and \<open>_3./out\<close>, so three images are written to three
  different paths and none replaces another.
\<close>

theorem dotted_directory_counterexample:
  "CHR ''.'' \<notin> set (file_name ''./out'') \<and>
   numberedPath ''./out'' 1 = ''_2./out'' \<and>
   fst (save_images env_ok three_images ''./out'' 3 world0) = Inr () \<and>
   writes (trace (snd (save_images env_ok three_images ''./out'' 3 world0))) =
     [(''./out'', ''bytes of https://cdn/a''), (''_2./out'', ''bytes of https://cdn/b''),
      (''_3./out'', ''bytes of https://cdn/c'')]"
proof -
  have f: "CHR ''.'' \<notin> set (file_name ''./out'')" by (simp add: file_name_def)
  have p1: "numberedPath ''./out'' (Suc 0) = ''_2./out''"
    by (simp add: numberedPath_def show_nat.simps digit_char_def)
  have p2: "numberedPath ''./out'' (Suc (Suc 0)) = ''_3./out''"
    by (simp add: numberedPath_def show_nat.simps digit_char_def)
  note d = env_ok_downloads
  from downloadAndSave_ok [OF d, of "''https://cdn/a''" "''./out''" world0]
  obtain w1 where 1: "downloadAndSave env_ok ''https://cdn/a'' ''./out'' world0 = (Inr (), w1)"
    "writes (trace w1) = writes (trace world0) @ [(''./out'', page ''https://cdn/a'')]"
    by blast
  from downloadAndSave_ok [OF d, of "''https://cdn/b''" "''_2./out''" w1]
  obtain w2 where 2: "downloadAndSave env_ok ''https://cdn/b'' ''_2./out'' w1 = (Inr (), w2)"
    "writes (trace w2) = writes (trace w1) @ [(''_2./out'', page ''https://cdn/b'')]"
    by blast
  from downloadAndSave_ok [OF d, of "''https://cdn/c''" "''_3./out''" w2]
  obtain w3 where 3: "downloadAndSave env_ok ''https://cdn/c'' ''_3./out'' w2 = (Inr (), w3)"
    "writes (trace w3) = writes (trace w2) @ [(''_3./out'', page ''https://cdn/c'')]"
    by blast
  have r: "save_images env_ok three_images ''./out'' 3 world0 = (Inr (), w3)"
    using 1 2 3 p1 p2 by (simp add: save_images_def three_images_def)
  have t: "writes (trace w3) =
     [(''./out'', ''bytes of https://cdn/a''), (''_2./out'', ''bytes of https://cdn/b''),
      (''_3./out'', ''bytes of https://cdn/c'')]"
    using 1 2 3 by (simp add: world0_def page_def)
  from f p1 r t show ?thesis by simp
qed

section \<open>Properties of the reference images\<close>

lemma usage_records_append [simp]: "usage_records (xs @ ys) = usage_records xs @ usage_records ys"
  by (induction xs rule: usage_records.induct) simp_all

lemma process_image_url: "getImageInputType img = Url \<Longrightarrow> process_image e img w = (Inr img, w)"
  by (simp add: process_image_def)

lemma upload_attempt:
  "withTimeout (upload_call e b) t w = (r, w') \<Longrightarrow> trace w' = trace w @ [Upload b]"
  by (cases "storage_upload e w b")
     (auto simp: withTimeout_def upload_call_def tick_def log_event_def split: if_splits)

lemma process_image_trace:
  assumes "process_image e img w = (r, w')"
  shows "w' = w \<or> (getImageInputType img \<noteq> Url \<and> (\<exists>b. trace w' = trace w @ [Upload b]))"
proof (cases "getImageInputType img")
  case Url
  with assms show ?thesis by (simp add: process_image_def)
next
  case DataUrl
  with assms show ?thesis
    by (cases "parseDataUrl e img") (auto simp: process_image_def dest: upload_attempt)
next
  case LocalFile
  with assms show ?thesis
    by (cases "readFileSync w img")
       (auto simp: process_image_def split: if_splits dest: upload_attempt)
qed

lemma process_image_success:
  assumes "process_image e img w = (Inr u, w')"
  shows "(getImageInputType img = Url \<and> u = img \<and> w' = w) \<or>
         (getImageInputType img \<noteq> Url \<and> (\<exists>b. trace w' = trace w @ [Upload b]))"
proof (cases "getImageInputType img")
  case Url
  with assms show ?thesis by (simp add: process_image_def)
next
  case DataUrl
  with assms show ?thesis
    by (cases "parseDataUrl e img") (auto simp: process_image_def dest: upload_attempt)
next
  case LocalFile
  with assms show ?thesis
    by (cases "readFileSync w img")
       (auto simp: process_image_def split: if_splits dest: upload_attempt)
qed

lemma loop_chain:
  "processReferenceImages_loop e refs i acc w = (Inr urls, w') \<Longrightarrow>
   \<exists>us ws. urls = acc @ us \<and> length us = length refs \<and> length ws = Suc (length refs) \<and>
           ws ! 0 = w \<and> ws ! length refs = w' \<and>
           (\<forall>k<length refs. process_image e (refs ! k) (ws ! k) = (Inr (us ! k), ws ! Suc k))"
proof (induction refs arbitrary: i acc w)
  case Nil
  then show ?case by (intro exI [of _ "[]"] exI [of _ "[w]"]) simp
next
  case (Cons img rest)
  obtain r w1 where p: "process_image e img w = (r, w1)" by (cases "process_image e img w")
  with Cons.prems obtain u where u: "r = Inr u" by (cases r) auto
  with p Cons.prems have "processReferenceImages_loop e rest (i + 1) (acc @ [u]) w1 = (Inr urls, w')"
    by simp
  from Cons.IH [OF this] obtain us ws where
    c: "urls = (acc @ [u]) @ us" "length us = length rest" "length ws = Suc (length rest)"
       "ws ! 0 = w1" "ws ! length rest = w'"
       "\<forall>k<length rest. process_image e (rest ! k) (ws ! k) = (Inr (us ! k), ws ! Suc k)"
    by blast
  have "\<forall>k<length (img # rest).
          process_image e ((img # rest) ! k) ((w # ws) ! k) = (Inr ((u # us) ! k), (w # ws) ! Suc k)"
  proof (intro allI impI)
    fix k assume "k < length (img # rest)"
    then show "process_image e ((img # rest) ! k) ((w # ws) ! k) = (Inr ((u # us) ! k), (w # ws) ! Suc k)"
      using c p u by (cases k) simp_all
  qed
  with c show ?case
    by (intro exI [of _ "u # us"] exI [of _ "w # ws"]) simp
qed

lemma loop_uploads:
  "processReferenceImages_loop e refs i acc w = (Inr urls, w') \<Longrightarrow>
   \<exists>bs. trace w' = trace w @ map Upload bs \<and>
        length bs = length (filter (\<lambda>r. getImageInputType r \<noteq> Url) refs)"
proof (induction refs arbitrary: i acc w)
  case Nil
  then show ?case by simp
next
  case (Cons img rest)
  obtain r w1 where p: "process_image e img w = (r, w1)" by (cases "process_image e img w")
  with Cons.prems obtain u where u: "r = Inr u" by (cases r) auto
  with p Cons.prems have "processReferenceImages_loop e rest (i + 1) (acc @ [u]) w1 = (Inr urls, w')"
    by simp
  from Cons.IH [OF this] obtain bs where
    bs: "trace w' = trace w1 @ map Upload bs"
        "length bs = length (filter (\<lambda>r. getImageInputType r \<noteq> Url) rest)"
    by blast
  from process_image_success [OF p [unfolded u]]
  show ?case
  proof
    assume "getImageInputType img = Url \<and> u = img \<and> w1 = w"
    with bs show ?thesis by (intro exI [of _ bs]) simp
  next
    assume "getImageInputType img \<noteq> Url \<and> (\<exists>b. trace w1 = trace w @ [Upload b])"
    then obtain b where "getImageInputType img \<noteq> Url" "trace w1 = trace w @ [Upload b]" by blast
    with bs show ?thesis by (intro exI [of _ "b # bs"]) simp
  qed
qed

lemma loop_all_urls:
  "list_all (\<lambda>r. getImageInputType r = Url) refs \<Longrightarrow>
   processReferenceImages_loop e refs i acc w = (Inr (acc @ refs), w)"
  by (induction refs arbitrary: i acc) (simp_all add: process_image_url)

lemma loop_failure:
  "processReferenceImages_loop e refs i acc w = (Inl m, w') \<Longrightarrow>
   \<exists>k<length refs. getImageInputType (refs ! k) \<noteq> Url \<and>
      (\<exists>reason. m = ''Failed to process reference image '' @ show_nat (i + k + 1) @ '': '' @ reason)"
proof (induction refs arbitrary: i acc w)
  case Nil
  then show ?case by simp
next
  case (Cons img rest)
  obtain r w1 where p: "process_image e img w = (r, w1)" by (cases "process_image e img w")
  show ?case
  proof (cases r)
    case (Inl reason)
    with p have "getImageInputType img \<noteq> Url" by (auto simp: process_image_url)
    moreover from p Inl Cons.prems
    have "m = ''Failed to process reference image '' @ show_nat (i + 0 + 1) @ '': '' @ reason"
      by simp
    ultimately show ?thesis by (intro exI [of _ 0]) auto
  next
    case (Inr u)
    with p Cons.prems have "processReferenceImages_loop e rest (i + 1) (acc @ [u]) w1 = (Inl m, w')"
      by simp
    from Cons.IH [OF this] obtain k reason where
      "k < length rest" "getImageInputType (rest ! k) \<noteq> Url"
      "m = ''Failed to process reference image '' @ show_nat (i + 1 + k + 1) @ '': '' @ reason"
      by blast
    then show ?thesis by (intro exI [of _ "Suc k"]) auto
  qed
qed


text \<open>
  C8. \<open>processReferenceImages\<close> handles the inputs one after the other in input order:
  when it returns a list of URLs, the list is as long as the input list, and there is a
  chain of worlds from the initial to the final one such that the URL at index \<open>k\<close> is
  what processing the input at index \<open>k\<close> returned in the world left by the inputs
  before it. An input classified as a remote URL is returned unchanged and leaves the
  world as it is, so it appears unchanged at its index and no upload is made for it:
  the events added are uploads only, one per input that is not a remote URL. A failure
  names the 1-based index of an input that is not a remote URL; a list of remote URLs
  only never fails. For a single \<open>https\<close> URL and the fast model, the upstream call goes
  to the edit endpoint \<open>fal-ai/nano-banana/edit\<close> with that URL as \<open>image_urls\<close>, in the
  world as it was, nothing uploaded.
\<close>

theorem reference_images_in_order:
  "(processReferenceImages e refs w = (Inr urls, w') \<longrightarrow>
      length urls = length refs \<and>
      (\<exists>ws. length ws = Suc (length refs) \<and> ws ! 0 = w \<and> ws ! length refs = w' \<and>
            (\<forall>k<length refs.
               process_image e (refs ! k) (ws ! k) = (Inr (urls ! k), ws ! Suc k))) \<and>
      (\<forall>k<length refs. getImageInputType (refs ! k) = Url \<longrightarrow> urls ! k = refs ! k) \<and>
      (\<exists>bs. trace w' = trace w @ map Upload bs \<and>
            length bs = length (filter (\<lambda>r. getImageInputType r \<noteq> Url) refs))) \<and>
   (processReferenceImages e refs w = (Inl m, w') \<longrightarrow>
      (\<exists>k<length refs. getImageInputType (refs ! k) \<noteq> Url \<and>
         (\<exists>reason. m = ''Failed to process reference image '' @ show_nat (k + 1) @ '': '' @ reason))) \<and>
   (getImageInputType img = Url \<longrightarrow> process_image e img w = (Inr img, w)) \<and>
   (list_all (\<lambda>r. getImageInputType r = Url) refs \<longrightarrow>
      processReferenceImages e refs w = (Inr refs, w)) \<and>
   (startsWith u ''https://'' \<longrightarrow>
      getModelId NanoBanana (length [u] > 0) = ''fal-ai/nano-banana/edit'' \<and>
      image_urls (build_input p fmt n ar [u] False res web) = Some [u] \<and>
      try_block e p path NanoBanana [u] ar fmt res n web w =
        (case call_api e ''fal-ai/nano-banana/edit'' (build_input p fmt n ar [u] False res web) w of
           (Inl msg, w2) \<Rightarrow> (Inl msg, w2)
         | (Inr response, w2) \<Rightarrow> save_images e response path n w2))"
proof (intro conjI impI)
  assume a: "processReferenceImages e refs w = (Inr urls, w')"
  show c: "\<exists>ws. length ws = Suc (length refs) \<and> ws ! 0 = w \<and> ws ! length refs = w' \<and>
            (\<forall>k<length refs.
               process_image e (refs ! k) (ws ! k) = (Inr (urls ! k), ws ! Suc k))"
  proof (cases "refs = []")
    case True
    with a show ?thesis by (intro exI [of _ "[w]"]) (simp add: processReferenceImages_def)
  next
    case False
    with a have "processReferenceImages_loop e refs 0 [] w = (Inr urls, w')"
      by (simp add: processReferenceImages_def)
    from loop_chain [OF this] show ?thesis by auto
  qed
  show l: "length urls = length refs"
  proof (cases "refs = []")
    case True
    with a show ?thesis by (simp add: processReferenceImages_def)
  next
    case False
    with a have "processReferenceImages_loop e refs 0 [] w = (Inr urls, w')"
      by (simp add: processReferenceImages_def)
    from loop_chain [OF this] show ?thesis by auto
  qed
  from c obtain ws where
    ws: "\<forall>k<length refs. process_image e (refs ! k) (ws ! k) = (Inr (urls ! k), ws ! Suc k)"
    by blast
  show "\<forall>k<length refs. getImageInputType (refs ! k) = Url \<longrightarrow> urls ! k = refs ! k"
  proof (intro allI impI)
    fix k assume "k < length refs" and "getImageInputType (refs ! k) = Url"
    with ws process_image_url [of "refs ! k" e "ws ! k"] show "urls ! k = refs ! k" by simp
  qed
  show "\<exists>bs. trace w' = trace w @ map Upload bs \<and>
            length bs = length (filter (\<lambda>r. getImageInputType r \<noteq> Url) refs)"
  proof (cases "refs = []")
    case True
    with a show ?thesis by (simp add: processReferenceImages_def)
  next
    case False
    with a have "processReferenceImages_loop e refs 0 [] w = (Inr urls, w')"
      by (simp add: processReferenceImages_def)
    then show ?thesis by (rule loop_uploads)
  qed
next
  assume a: "processReferenceImages e refs w = (Inl m, w')"
  then have "refs \<noteq> []" by (auto simp: processReferenceImages_def)
  with a have "processReferenceImages_loop e refs 0 [] w = (Inl m, w')"
    by (simp add: processReferenceImages_def)
  from loop_failure [OF this]
  show "\<exists>k<length refs. getImageInputType (refs ! k) \<noteq> Url \<and>
         (\<exists>reason. m = ''Failed to process reference image '' @ show_nat (k + 1) @ '': '' @ reason)"
    by simp
next
  assume "getImageInputType img = Url"
  then show "process_image e img w = (Inr img, w)" by (rule process_image_url)
next
  assume "list_all (\<lambda>r. getImageInputType r = Url) refs"
  then show "processReferenceImages e refs w = (Inr refs, w)"
    using loop_all_urls [of refs e 0 "[]" w] by (simp add: processReferenceImages_def)
next
  show "getModelId NanoBanana (length [u] > 0) = ''fal-ai/nano-banana/edit''"
    by (simp add: getModelId_def)
  show "image_urls (build_input p fmt n ar [u] False res web) = Some [u]"
    by (simp add: build_input_def)
  assume "startsWith u ''https://''"
  then have "getImageInputType u = Url"
    by (auto simp: getImageInputType_def startsWith_def prefix_def)
  then have "processReferenceImages e [u] w = (Inr [u], w)"
    using loop_all_urls [of "[u]" e 0 "[]" w] by (simp add: processReferenceImages_def)
  then show "try_block e p path NanoBanana [u] ar fmt res n web w =
        (case call_api e ''fal-ai/nano-banana/edit'' (build_input p fmt n ar [u] False res web) w of
           (Inl msg, w2) \<Rightarrow> (Inl msg, w2)
         | (Inr response, w2) \<Rightarrow> save_images e response path n w2)"
    by (simp add: try_block_def getModelId_def)
qed


lemma call_api_hangs:
  "\<not> settles_before DEFAULT_TIMEOUT_MS (fal_subscribe e w modelId inp) \<Longrightarrow>
   call_api e modelId inp w =
     (Inl ''TIMEOUT: Operation timed out after 180000ms'',
      tick 180000 (log_event (Subscribe modelId inp) w))"
proof -
  assume "\<not> settles_before DEFAULT_TIMEOUT_MS (fal_subscribe e w modelId inp)"
  then have "withTimeout (subscribe_call e modelId inp) DEFAULT_TIMEOUT_MS w =
       (Inl ''TIMEOUT: Operation timed out after 180000ms'',
        tick 180000 (log_event (Subscribe modelId inp) w))"
    using subscribe_attempt_timeout [of DEFAULT_TIMEOUT_MS e w modelId inp]
    by (simp add: timeout_message_default) (simp add: DEFAULT_TIMEOUT_MS_def)
  moreover have "\<not> generate_retryable ''TIMEOUT: Operation timed out after 180000ms''"
    using timeout_not_retryable by (simp add: timeout_message_default)
  ultimately show ?thesis by (simp add: call_api_def retry_once_fails)
qed

theorem reference_images_in_order_witness:
  "processReferenceImages env_up [''https://x/y.jpg'', ''data:image/png;base64,AAAA''] world0 =
     (Inr [''https://x/y.jpg'', ''https://fal.media/up''],
      world0\<lparr>now := 20, trace := [Upload \<lparr>blob_data = ''AAAA'', blob_type = ''image/png''\<rparr>]\<rparr>) \<and>
   [''https://x/y.jpg'', ''https://fal.media/up''] ! 0 = ''https://x/y.jpg'' \<and>
   processReferenceImages env0 [''https://x/y.jpg''] world0 = (Inr [''https://x/y.jpg''], world0) \<and>
   try_block env0 ''add a hat'' ''/tmp/hat.png'' NanoBanana [''https://x/y.jpg''] None Png R1K 1 False
       world0 =
     (Inl ''TIMEOUT: Operation timed out after 180000ms'',
      world0\<lparr>now := 180000,
              trace := [Subscribe ''fal-ai/nano-banana/edit''
                          (build_input ''add a hat'' Png 1 None [''https://x/y.jpg''] False R1K False)]\<rparr>) \<and>
   processReferenceImages env0 [''https://x/y.jpg'', ''/no/such.png''] world0 =
     (Inl ''Failed to process reference image 2: Reference image file not found: /no/such.png'',
      world0) \<and>
   (\<exists>k<2. getImageInputType ([''https://x/y.jpg'', ''/no/such.png''] ! k) \<noteq> Url)"
proof -
  let ?refs = "[''https://x/y.jpg'', ''data:image/png;base64,AAAA'']"
  let ?w1 = "world0\<lparr>now := 20, trace := [Upload \<lparr>blob_data = ''AAAA'', blob_type = ''image/png''\<rparr>]\<rparr>"
  have t0: "getImageInputType ''https://x/y.jpg'' = Url"
    by (simp add: getImageInputType_def startsWith_def)
  have t1: "getImageInputType ''data:image/png;base64,AAAA'' = DataUrl"
    by (simp add: getImageInputType_def startsWith_def)
  have pd: "parseDataUrl env_up ''data:image/png;base64,AAAA'' =
            Inr \<lparr>blob_data = ''AAAA'', blob_type = ''image/png''\<rparr>"
    by (simp add: parseDataUrl_def startsWith_def line_terminator_def env_up_def env0_def Let_def)
  have p2: "process_image env_up ''data:image/png;base64,AAAA'' world0 =
            (Inr ''https://fal.media/up'', ?w1)"
    by (simp add: process_image_def t1 pd)
       (simp add: withTimeout_def upload_call_def env_up_def UPLOAD_TIMEOUT_MS_def tick_def
          log_event_def world0_def)
  have ev: "processReferenceImages env_up ?refs world0 =
            (Inr [''https://x/y.jpg'', ''https://fal.media/up''], ?w1)"
    by (simp add: processReferenceImages_def process_image_url [OF t0] p2)
  note t = reference_images_in_order
      [where e = env_up and refs = ?refs and w = world0
         and urls = "[''https://x/y.jpg'', ''https://fal.media/up'']" and w' = ?w1]
  from t ev have
    "\<forall>k<length ?refs. getImageInputType (?refs ! k) = Url \<longrightarrow>
       [''https://x/y.jpg'', ''https://fal.media/up''] ! k = ?refs ! k"
    by blast
  then have a: "[''https://x/y.jpg'', ''https://fal.media/up''] ! 0 = ''https://x/y.jpg''"
    by simp
  note s = reference_images_in_order
      [where e = env0 and refs = "[''https://x/y.jpg'']" and w = world0 and u = "''https://x/y.jpg''"
         and p = "''add a hat''" and path = "''/tmp/hat.png''" and ar = None and fmt = Png
         and res = R1K and n = 1 and web = False]
  from s t0 have b: "processReferenceImages env0 [''https://x/y.jpg''] world0 =
                     (Inr [''https://x/y.jpg''], world0)"
    by simp
  have h: "\<not> settles_before DEFAULT_TIMEOUT_MS
              (fal_subscribe env0 world0 ''fal-ai/nano-banana/edit''
                 (build_input ''add a hat'' Png 1 None [''https://x/y.jpg''] False R1K False))"
    by (simp add: settles_before_def env0_def)
  have st: "startsWith ''https://x/y.jpg'' ''https://''" by (simp add: startsWith_def)
  from s st have "try_block env0 ''add a hat'' ''/tmp/hat.png'' NanoBanana [''https://x/y.jpg''] None Png
      R1K 1 False world0 =
        (case call_api env0 ''fal-ai/nano-banana/edit''
                (build_input ''add a hat'' Png 1 None [''https://x/y.jpg''] False R1K False) world0 of
           (Inl msg, w2) \<Rightarrow> (Inl msg, w2)
         | (Inr response, w2) \<Rightarrow> save_images env0 response ''/tmp/hat.png'' 1 w2)"
    by blast
  then have c: "try_block env0 ''add a hat'' ''/tmp/hat.png'' NanoBanana [''https://x/y.jpg''] None Png
      R1K 1 False world0 =
     (Inl ''TIMEOUT: Operation timed out after 180000ms'',
      world0\<lparr>now := 180000,
              trace := [Subscribe ''fal-ai/nano-banana/edit''
                          (build_input ''add a hat'' Png 1 None [''https://x/y.jpg''] False R1K False)]\<rparr>)"
    by (simp add: call_api_hangs [OF h]) (simp add: tick_def log_event_def world0_def)
  have f: "processReferenceImages env0 [''https://x/y.jpg'', ''/no/such.png''] world0 =
     (Inl ''Failed to process reference image 2: Reference image file not found: /no/such.png'',
      world0)"
    by (simp add: processReferenceImages_def process_image_def getImageInputType_def startsWith_def
          existsSync_def world0_def show_nat.simps digit_char_def)
  from reference_images_in_order
      [where e = env0 and refs = "[''https://x/y.jpg'', ''/no/such.png'']" and w = world0
         and w' = world0
         and m = "''Failed to process reference image 2: Reference image file not found: /no/such.png''"]
       f
  obtain k where "k < length [''https://x/y.jpg'', ''/no/such.png'']"
    "getImageInputType ([''https://x/y.jpg'', ''/no/such.png''] ! k) \<noteq> Url"
    by blast
  then have g: "\<exists>k<2. getImageInputType ([''https://x/y.jpg'', ''/no/such.png''] ! k) \<noteq> Url"
    by (intro exI [of _ k]) simp
  from ev a b c f g show ?thesis by simp
qed


section \<open>Properties of the usage log\<close>

lemma withTimeout_usage:
  "usage_records (trace (snd (fn w))) = usage_records (trace w) \<Longrightarrow>
   usage_records (trace (snd (withTimeout fn t w))) = usage_records (trace w)"
proof -
  assume a: "usage_records (trace (snd (fn w))) = usage_records (trace w)"
  obtain p w1 where f: "fn w = (p, w1)" by (cases "fn w")
  with a show ?thesis by (cases p) (simp_all add: withTimeout_def tick_def)
qed

lemma withRetry_loop_usage:
  "\<forall>w. usage_records (trace (snd (fn w))) = usage_records (trace w) \<Longrightarrow>
   usage_records (trace (snd (withRetry_loop fn opts attempt delay le w))) = usage_records (trace w)"
proof (induction fn opts attempt delay le w rule: withRetry_loop.induct)
  case (1 fn opts attempt delay lastError w)
  note frame = "1.prems"
  obtain r w1 where f: "fn w = (r, w1)" by (cases "fn w")
  from frame f have b: "usage_records (trace w1) = usage_records (trace w)" by (metis snd_conv)
  show ?case
  proof (cases "attempt \<le> opts_maxRetries opts")
    case False
    then show ?thesis by (subst withRetry_loop.simps) simp
  next
    case le: True
    show ?thesis
    proof (cases r)
      case (Inr v)
      with f le b show ?thesis by (simp add: withRetry_loop_success)
    next
      case (Inl m)
      show ?thesis
      proof (cases "attempt = opts_maxRetries opts \<or> \<not> isRetryable m (opts_retryableErrors opts)")
        case True
        with f Inl le b show ?thesis by (simp add: withRetry_loop_stop)
      next
        case False
        with le have lt: "attempt < opts_maxRetries opts" by simp
        from "1.IH" [OF le f [symmetric] Inl False frame] b
        show ?thesis using f Inl False lt by (simp add: withRetry_loop_retry)
      qed
    qed
  qed
qed

lemma call_api_usage:
  "usage_records (trace (snd (call_api e modelId inp w))) = usage_records (trace w)"
proof -
  have "\<forall>v. usage_records (trace (snd (withTimeout (subscribe_call e modelId inp) DEFAULT_TIMEOUT_MS v)))
            = usage_records (trace v)"
    by (simp add: withTimeout_usage log_event_def)
  then show ?thesis
    by (simp add: call_api_def withRetry_def Let_def withRetry_loop_usage)
qed

lemma process_image_usage:
  "usage_records (trace (snd (process_image e img w))) = usage_records (trace w)"
proof -
  obtain r w' where p: "process_image e img w = (r, w')" by (cases "process_image e img w")
  from process_image_trace [OF p] p show ?thesis by auto
qed

lemma processReferenceImages_loop_usage:
  "usage_records (trace (snd (processReferenceImages_loop e refs i acc w))) = usage_records (trace w)"
proof (induction refs arbitrary: i acc w)
  case Nil
  show ?case by simp
next
  case (Cons img rest)
  obtain r w1 where p: "process_image e img w = (r, w1)" by (cases "process_image e img w")
  with process_image_usage [of e img w]
  have b: "usage_records (trace w1) = usage_records (trace w)" by simp
  show ?case
  proof (cases r)
    case (Inl m)
    with p b show ?thesis by simp
  next
    case (Inr u)
    with p b Cons.IH [of "i + 1" "acc @ [u]" w1] show ?thesis by simp
  qed
qed

lemma processReferenceImages_usage:
  "usage_records (trace (snd (processReferenceImages e refs w))) = usage_records (trace w)"
  by (simp add: processReferenceImages_def processReferenceImages_loop_usage)

lemma downloadAndSave_usage:
  "usage_records (trace (snd (downloadAndSave e u p w))) = usage_records (trace w)"
  by (auto simp: downloadAndSave_def Let_def mkdirSync_def writeFileSync_def tick_def log_event_def
        split: prod.splits sum.splits option.splits if_splits)

lemma save_additional_usage:
  "usage_records (trace (snd (save_additional e path imgs i w))) = usage_records (trace w)"
proof (induction imgs arbitrary: i w)
  case Nil
  show ?case by simp
next
  case (Cons img rest)
  obtain r w1 where d: "downloadAndSave e (url img) (numberedPath path i) w = (r, w1)"
    by (cases "downloadAndSave e (url img) (numberedPath path i) w")
  with downloadAndSave_usage [of e "url img" "numberedPath path i" w]
  have b: "usage_records (trace w1) = usage_records (trace w)" by simp
  show ?case
  proof (cases r)
    case (Inl m)
    with d b show ?thesis by simp
  next
    case (Inr x)
    with d b Cons.IH [of "i + 1" w1] show ?thesis by simp
  qed
qed

lemma save_images_usage:
  "usage_records (trace (snd (save_images e response path n w))) = usage_records (trace w)"
proof (cases "images response")
  case None
  then show ?thesis by (simp add: save_images_def)
next
  case (Some imgs)
  show ?thesis
  proof (cases imgs)
    case Nil
    with Some show ?thesis by (simp add: save_images_def)
  next
    case (Cons img0 others)
    obtain r w1 where d: "downloadAndSave e (url img0) path w = (r, w1)"
      by (cases "downloadAndSave e (url img0) path w")
    with downloadAndSave_usage [of e "url img0" path w]
    have b: "usage_records (trace w1) = usage_records (trace w)" by simp
    show ?thesis
    proof (cases r)
      case (Inl m)
      with Some Cons d b show ?thesis by (simp add: save_images_def)
    next
      case (Inr x)
      with Some Cons d b save_additional_usage [of e path others 1 w1]
      show ?thesis by (simp add: save_images_def)
    qed
  qed
qed

lemma try_block_usage:
  "usage_records (trace (snd (try_block e p path m refs ar fmt res n web w))) = usage_records (trace w)"
proof -
  let ?first = "if length refs > 0 then processReferenceImages e refs w else (Inr [], w)"
  obtain r1 w1 where a: "?first = (r1, w1)" by (cases ?first)
  have b: "usage_records (trace w1) = usage_records (trace w)"
    using a processReferenceImages_usage [of e refs w] by (auto split: if_splits)
  show ?thesis
  proof (cases r1)
    case (Inl msg)
    with a b show ?thesis by (simp add: try_block_def Let_def)
  next
    case (Inr urls)
    let ?id = "getModelId m (length refs > 0)"
    let ?inp = "build_input p fmt n ar urls (m = NanoBananaPro) res web"
    obtain r2 w2 where c: "call_api e ?id ?inp w1 = (r2, w2)" by (cases "call_api e ?id ?inp w1")
    with call_api_usage [of e ?id ?inp w1] b
    have d: "usage_records (trace w2) = usage_records (trace w)" by simp
    show ?thesis
    proof (cases r2)
      case (Inl msg)
      with a Inr c d show ?thesis by (simp add: try_block_def Let_def)
    next
      case (Inr response)
      with a \<open>r1 = Inr urls\<close> c d save_images_usage [of e response path n w2]
      show ?thesis by (simp add: try_block_def Let_def)
    qed
  qed
qed


text \<open>
  C3, as the code has it. For every call of \<open>generate\<close> that passes the validation at its
  head, exactly one usage record is handed to the logger, whether the call returns a
  result or fails (in the upload of a reference image, in the upstream call or in a
  download): a record with \<open>success\<close> true and the duration of the result, or with
  \<open>success\<close> false and the error message that is thrown. A call that fails the
  validation throws before the \<open>try\<close> block and leaves no usage record.
\<close>

theorem usage_record_per_request:
  "(validate (aspectRatio options) (or_default (model options) NanoBanana)
      (or_default (referenceImages options) []) (or_default (resolution options) R1K) = None \<longrightarrow>
      (\<exists>entry. usage_records (trace (snd (generate e options w))) = usage_records (trace w) @ [entry] \<and>
         usage_model entry = or_default (model options) NanoBanana \<and>
         (case fst (generate e options w) of
            Inr result \<Rightarrow> success entry \<and> error entry = None \<and>
                          durationMs entry = usage_durationMs result
          | Inl msg \<Rightarrow> \<not> success entry \<and> error entry = Some msg))) \<and>
   (validate (aspectRatio options) (or_default (model options) NanoBanana)
      (or_default (referenceImages options) []) (or_default (resolution options) R1K) = Some msg \<longrightarrow>
      generate e options w = (Inl msg, w) \<and>
      usage_records (trace (snd (generate e options w))) = usage_records (trace w))"
proof (intro conjI impI)
  let ?m = "or_default (model options) NanoBanana"
  let ?t = "try_block e (prompt options) (outputPath options) ?m
              (or_default (referenceImages options) []) (aspectRatio options)
              (or_default (outputFormat options) Png) (or_default (resolution options) R1K)
              (or_default (numImages options) 1) (or_default (enableWebSearch options) False) w"
  assume v: "validate (aspectRatio options) ?m (or_default (referenceImages options) [])
               (or_default (resolution options) R1K) = None"
  obtain r w1 where t: "?t = (r, w1)" by (cases ?t)
  have b: "usage_records (trace w1) = usage_records (trace w)"
    using t try_block_usage [of e "prompt options" "outputPath options" ?m
        "or_default (referenceImages options) []" "aspectRatio options"
        "or_default (outputFormat options) Png" "or_default (resolution options) R1K"
        "or_default (numImages options) 1" "or_default (enableWebSearch options) False" w]
    by simp
  show "\<exists>entry. usage_records (trace (snd (generate e options w))) = usage_records (trace w) @ [entry] \<and>
         usage_model entry = ?m \<and>
         (case fst (generate e options w) of
            Inr result \<Rightarrow> success entry \<and> error entry = None \<and>
                          durationMs entry = usage_durationMs result
          | Inl msg \<Rightarrow> \<not> success entry \<and> error entry = Some msg)"
  proof (cases r)
    case (Inr x)
    with v t b show ?thesis
      by (intro exI [of _ "\<lparr>timestamp = now w1, usage_model = ?m, durationMs = now w1 - now w,
                              success = True, error = None\<rparr>"])
         (simp add: generate_def Let_def log_event_def)
  next
    case (Inl errorMessage)
    with v t b show ?thesis
      by (intro exI [of _ "\<lparr>timestamp = now w1, usage_model = ?m, durationMs = now w1 - now w,
                              success = False,
                              error = Some (errorType errorMessage @ '': '' @ errorMessage)\<rparr>"])
         (simp add: generate_def Let_def log_event_def)
  qed
next
  assume v: "validate (aspectRatio options) (or_default (model options) NanoBanana)
      (or_default (referenceImages options) []) (or_default (resolution options) R1K) = Some msg"
  then show g: "generate e options w = (Inl msg, w)"
    by (rule generate_validation_failure)
  then show "usage_records (trace (snd (generate e options w))) = usage_records (trace w)"
    by simp
qed

lemma plain_request_valid:
  "validate (aspectRatio plain_request) (or_default (model plain_request) NanoBanana)
     (or_default (referenceImages plain_request) []) (or_default (resolution plain_request) R1K) = None"
  by (simp add: plain_request_def or_default_def validate_passes aspect_passes_def)

theorem usage_record_per_request_witness:
  "length (usage_records (trace (snd (generate env0 plain_request world0)))) = 1 \<and>
   fst (generate env0 plain_request world0) =
     Inl ''TIMEOUT: TIMEOUT: Operation timed out after 180000ms'' \<and>
   usage_records (trace (snd (generate env0 auto_request world0))) = []"
proof -
  from usage_record_per_request [where options = plain_request and e = env0 and w = world0]
       plain_request_valid
  obtain entry where
    "usage_records (trace (snd (generate env0 plain_request world0))) =
       usage_records (trace world0) @ [entry]"
    by blast
  then have a: "length (usage_records (trace (snd (generate env0 plain_request world0)))) = 1"
    by (simp add: world0_def)
  let ?inp = "build_input ''a red cube'' Png 1 None [] False R1K False"
  have h: "\<not> settles_before DEFAULT_TIMEOUT_MS (fal_subscribe env0 world0 ''fal-ai/nano-banana'' ?inp)"
    by (simp add: settles_before_def env0_def)
  have t: "try_block env0 ''a red cube'' ''/tmp/cube.png'' NanoBanana [] None Png R1K 1 False world0 =
        (Inl ''TIMEOUT: Operation timed out after 180000ms'',
         tick 180000 (log_event (Subscribe ''fal-ai/nano-banana'' ?inp) world0))"
    by (simp add: try_block_def getModelId_def call_api_hangs [OF h])
  have c: "errorType ''TIMEOUT: Operation timed out after 180000ms'' = ''TIMEOUT''"
    by (simp add: errorType_def)
  have b: "fst (generate env0 plain_request world0) =
           Inl ''TIMEOUT: TIMEOUT: Operation timed out after 180000ms''"
    using plain_request_valid
    by (simp add: generate_def Let_def)
       (simp add: plain_request_def or_default_def t c)
  have v: "validate (aspectRatio auto_request) (or_default (model auto_request) NanoBanana)
          (or_default (referenceImages auto_request) []) (or_default (resolution auto_request) R1K) =
        Some (''Aspect ratio '' @ dquote @ ''auto'' @ dquote @
           '' is only valid when using reference_images. For text-to-image, use: '' @
           ''1:1, 2:3, 3:2, 3:4, 4:3, 4:5, 5:4, 9:16, 16:9, 21:9'')"
    by (simp add: auto_request_def or_default_def validate_auto_without_references)
  from usage_record_per_request [where options = auto_request and e = env0 and w = world0] v
  have "usage_records (trace (snd (generate env0 auto_request world0))) = usage_records (trace world0)"
    by blast
  then have d: "usage_records (trace (snd (generate env0 auto_request world0))) = []"
    by (simp add: world0_def)
  from a b d show ?thesis by simp
qed

text \<open>
  C3 as stated fails for validation failures: the request for aspect ratio \<open>auto\<close>
  without reference images fails, and no usage record is written.
\<close>

theorem usage_record_counterexample:
  "generate env0 auto_request world0 =
     (Inl (''Aspect ratio '' @ dquote @ ''auto'' @ dquote @
           '' is only valid when using reference_images. For text-to-image, use: '' @
           ''1:1, 2:3, 3:2, 3:4, 4:3, 4:5, 5:4, 9:16, 16:9, 21:9''), world0) \<and>
   usage_records (trace (snd (generate env0 auto_request world0))) = []"
proof -
  have "validate (aspectRatio auto_request) (or_default (model auto_request) NanoBanana)
          (or_default (referenceImages auto_request) []) (or_default (resolution auto_request) R1K) =
        Some (''Aspect ratio '' @ dquote @ ''auto'' @ dquote @
           '' is only valid when using reference_images. For text-to-image, use: '' @
           ''1:1, 2:3, 3:2, 3:4, 4:3, 4:5, 5:4, 9:16, 16:9, 21:9'')"
    by (simp add: auto_request_def or_default_def validate_auto_without_references)
  from generate_validation_failure [OF this, of env0 world0]
  show ?thesis by (simp add: world0_def)
qed

end
